theory Spec2Isabelle
  imports Complex_Main "HOL-Library.Word"
begin

section \<open>cuDNN batch normalization of ChainerX (chainerx/cuda/cuda_device/batch_norm.cc)\<close>

text \<open>
  The file binds three operators (forward training, backward, fixed forward) to the
  cuDNN batch-normalization primitives. The embedding keeps the control flow of the
  three \<open>Call\<close> methods and of the two helpers \<open>GetBatchNormMode\<close> and
  \<open>UpdateRunning\<close>: every \<open>throw\<close> and every assertion is a branch that
  returns an error, device memory is an explicit store from addresses to byte
  sequences, and every device operation (dtype conversion, byte copy, native call) is
  appended to a log, so that "was performed" and "before the native call" are
  statements about that log.
\<close>

subsection \<open>Data\<close>

datatype Dtype = kBool | kInt8 | kInt16 | kInt32 | kInt64 | kUInt8 | kFloat16 | kFloat32 | kFloat64

datatype DtypeKind = kBoolKind | kIntKind | kUIntKind | kFloatKind

fun GetKind :: "Dtype \<Rightarrow> DtypeKind" where
  "GetKind kBool = kBoolKind"
| "GetKind kInt8 = kIntKind"
| "GetKind kInt16 = kIntKind"
| "GetKind kInt32 = kIntKind"
| "GetKind kInt64 = kIntKind"
| "GetKind kUInt8 = kUIntKind"
| "GetKind kFloat16 = kFloatKind"
| "GetKind kFloat32 = kFloatKind"
| "GetKind kFloat64 = kFloatKind"

fun GetItemSize :: "Dtype \<Rightarrow> nat" where
  "GetItemSize kBool = 1"
| "GetItemSize kInt8 = 1"
| "GetItemSize kInt16 = 2"
| "GetItemSize kInt32 = 4"
| "GetItemSize kInt64 = 8"
| "GetItemSize kUInt8 = 1"
| "GetItemSize kFloat16 = 2"
| "GetItemSize kFloat32 = 4"
| "GetItemSize kFloat64 = 8"

datatype cudnnBatchNormMode_t = CUDNN_BATCHNORM_PER_ACTIVATION | CUDNN_BATCHNORM_SPATIAL

datatype cudnnDataType_t =
  CUDNN_DATA_FLOAT | CUDNN_DATA_DOUBLE | CUDNN_DATA_HALF | CUDNN_DATA_OTHER nat

text \<open>\<open>Axes\<close> is a stack vector of \<open>int8_t\<close>; \<open>Shape\<close> holds \<open>int64_t\<close>
  extents, on which the file only takes products and compares, so they are integers.\<close>

type_synonym Axes = "8 word list"
type_synonym Shape = "int list"
type_synonym addr = nat
type_synonym bytes = "8 word list"

text \<open>An \<open>Array\<close> is a handle: what this file observes of it is the address
  \<open>internal::GetRawOffsetData\<close> returns, its dtype, shape, device and whether
  \<open>IsContiguous()\<close> holds. Two handles with the same address share storage.\<close>

record Array =
  raw_data :: addr
  dtype :: Dtype
  shape :: Shape
  is_contiguous :: bool
  device :: nat

definition GetTotalSize :: "Shape \<Rightarrow> int" where
  "GetTotalSize s = prod_list s"

definition GetNBytes :: "Array \<Rightarrow> nat" where
  "GetNBytes a = nat (GetTotalSize (shape a)) * GetItemSize (dtype a)"

record TensorDescriptor =
  desc_dtype :: cudnnDataType_t
  desc_shape :: Shape

record CudaBatchNormState =
  x_cont :: Array
  x_mean :: Array
  x_inv_std :: Array

text \<open>The \<open>state\<close> parameter is a \<open>nonstd::optional<std::shared_ptr<void>>\<close>:
  the optional may be disengaged (\<open>None\<close>), engaged with a null pointer
  (\<open>Some None\<close>), or engaged with a pointer to a state.\<close>

type_synonym state_arg = "CudaBatchNormState option option"

datatype cudnn_message = MinEpsilon rat rat | BadStatus

datatype error =
  AssertionFailure
| UndefinedBehaviour
| CudnnError cudnn_message
| DeviceError string
| DimensionError Axes
| DtypeError cudnnDataType_t
| TensorDescriptorError

subsection \<open>Device memory and the log of device operations\<close>

text \<open>The pointer arguments of a native call, in the order of the source, and the
  two scalars it passes.\<close>

record forward_training_args =
  ft_mode :: cudnnBatchNormMode_t
  ft_x :: addr
  ft_y :: addr
  ft_scale :: addr
  ft_bias :: addr
  ft_factor :: rat
  ft_running_mean :: addr
  ft_running_var :: addr
  ft_eps :: rat
  ft_save_mean :: addr
  ft_save_inv_std :: addr

record backward_args =
  bw_mode :: cudnnBatchNormMode_t
  bw_x :: addr
  bw_dy :: addr
  bw_dx :: addr
  bw_scale :: addr
  bw_dscale :: addr
  bw_dbias :: addr
  bw_eps :: rat
  bw_save_mean :: addr
  bw_save_inv_std :: addr

record inference_args =
  fi_mode :: cudnnBatchNormMode_t
  fi_x :: addr
  fi_y :: addr
  fi_scale :: addr
  fi_bias :: addr
  fi_mean :: addr
  fi_var :: addr
  fi_eps :: rat

text \<open>An event is one device operation: a dtype conversion (source, destination), a
  byte copy (destination, source, length), or a native call with its arguments and
  what it returned (\<open>None\<close> for a status other than success).\<close>

datatype event =
  AsTypeEv addr Dtype addr Dtype
| MemoryCopyEv addr addr nat
| ForwardTrainingEv forward_training_args "(bytes \<times> bytes \<times> bytes \<times> bytes \<times> bytes) option"
| BackwardEv backward_args "(bytes \<times> bytes \<times> bytes) option"
| ForwardInferenceEv inference_args "bytes option"

fun is_native_call :: "event \<Rightarrow> bool" where
  "is_native_call (AsTypeEv _ _ _ _) = False"
| "is_native_call (MemoryCopyEv _ _ _) = False"
| "is_native_call (ForwardTrainingEv _ _) = True"
| "is_native_call (BackwardEv _ _) = True"
| "is_native_call (ForwardInferenceEv _ _) = True"

fun is_copy_to :: "addr \<Rightarrow> event \<Rightarrow> bool" where
  "is_copy_to a (MemoryCopyEv dst _ _) = (dst = a)"
| "is_copy_to a _ = False"

record heap =
  mem :: "addr \<Rightarrow> bytes"
  next_addr :: addr
  trace :: "event list"

text \<open>
  What the file takes from outside itself is a parameter of the model:
  the build flag \<open>CHAINERX_DEBUG\<close>, the constant \<open>CUDNN_BN_MIN_EPSILON\<close>
  of \<open>cudnn.h\<close>, the construction of a tensor descriptor for a contiguous array
  of a dtype and shape (\<open>cuda_internal::CudnnTensorDescriptor\<close>, \<open>None\<close> when
  it throws), the derivation of the parameter descriptor
  (\<open>cudnnDeriveBNTensorDescriptor\<close>, \<open>None\<close> for a status other than
  success), the elementwise conversion between dtypes, and the three native
  primitives, each a function from the bytes it reads to the bytes it writes
  (\<open>None\<close> for a status other than success). The signatures follow cuDNN's:
  forward training writes \<open>y\<close>, the two running statistics and the two saved
  statistics; backward writes \<open>dx\<close> and the two parameter gradients; inference
  writes \<open>y\<close> only. The coefficients \<open>alpha = 1\<close> and \<open>beta = 0\<close> that
  every call passes are constants of the source and are left implicit.
  \<open>Scalar\<close> arguments are read through \<open>static_cast<double>\<close>; the
  model takes the value of that double as a rational and does not round.
\<close>

record env =
  CHAINERX_DEBUG :: bool
  CUDNN_BN_MIN_EPSILON :: rat
  CudnnTensorDescriptor :: "Dtype \<Rightarrow> Shape \<Rightarrow> TensorDescriptor option"
  cudnnDeriveBNTensorDescriptor ::
    "TensorDescriptor \<Rightarrow> cudnnBatchNormMode_t \<Rightarrow> TensorDescriptor option"
  AsTypeBytes :: "Dtype \<Rightarrow> Dtype \<Rightarrow> bytes \<Rightarrow> bytes"
  cudnnBatchNormalizationForwardTraining ::
    "cudnnBatchNormMode_t \<Rightarrow> TensorDescriptor \<Rightarrow> bytes \<Rightarrow> TensorDescriptor \<Rightarrow> bytes \<Rightarrow> bytes
      \<Rightarrow> rat \<Rightarrow> bytes \<Rightarrow> bytes \<Rightarrow> rat \<Rightarrow> (bytes \<times> bytes \<times> bytes \<times> bytes \<times> bytes) option"
  cudnnBatchNormalizationBackward ::
    "cudnnBatchNormMode_t \<Rightarrow> TensorDescriptor \<Rightarrow> bytes \<Rightarrow> bytes \<Rightarrow> TensorDescriptor \<Rightarrow> bytes
      \<Rightarrow> rat \<Rightarrow> bytes \<Rightarrow> bytes \<Rightarrow> (bytes \<times> bytes \<times> bytes) option"
  cudnnBatchNormalizationForwardInference ::
    "cudnnBatchNormMode_t \<Rightarrow> TensorDescriptor \<Rightarrow> bytes \<Rightarrow> TensorDescriptor \<Rightarrow> bytes \<Rightarrow> bytes
      \<Rightarrow> bytes \<Rightarrow> bytes \<Rightarrow> rat \<Rightarrow> bytes option"

subsection \<open>Computations that may throw\<close>

text \<open>A computation takes the heap and returns a value or the exception thrown,
  with the heap as it is at that moment.\<close>

type_synonym 'a cuda = "heap \<Rightarrow> (error + 'a) \<times> heap"

definition ret :: "'a \<Rightarrow> 'a cuda" where
  "ret v h = (Inr v, h)"

definition throw :: "error \<Rightarrow> 'a cuda" where
  "throw e h = (Inl e, h)"

definition bind :: "'a cuda \<Rightarrow> ('a \<Rightarrow> 'b cuda) \<Rightarrow> 'b cuda" where
  "bind m f h = (case m h of (Inl e, h') \<Rightarrow> (Inl e, h') | (Inr v, h') \<Rightarrow> f v h')"

definition of_result :: "error + 'a \<Rightarrow> 'a cuda" where
  "of_result r = (case r of Inl e \<Rightarrow> throw e | Inr v \<Rightarrow> ret v)"

text \<open>Modelled from the spec: \<open>CHAINERX_ASSERT\<close> of \<open>chainerx/macro.h\<close> is
  missing from the sources. Section 7 of the specification has the assertions
  compiled out of release builds; in a debug build a failed assertion aborts.\<close>

definition CHAINERX_ASSERT :: "env \<Rightarrow> bool \<Rightarrow> unit cuda" where
  "CHAINERX_ASSERT E b = (if CHAINERX_DEBUG E \<and> \<not> b then throw AssertionFailure else ret ())"

subsection \<open>Array routines the file calls\<close>

text \<open>Modelled from the spec: \<open>Empty\<close> and \<open>EmptyLike\<close> of
  \<open>chainerx/routines/creation.h\<close> are missing from the sources. Section 6 has
  them allocate an empty tensor of a given shape, dtype and device. The new buffer is
  contiguous and its address is fresh; its bytes are taken as zero.\<close>

definition Empty :: "Shape \<Rightarrow> Dtype \<Rightarrow> nat \<Rightarrow> Array cuda" where
  "Empty s dt dev h =
     (Inr \<lparr>raw_data = next_addr h, dtype = dt, shape = s, is_contiguous = True, device = dev\<rparr>,
      h\<lparr>mem := (mem h)(next_addr h := replicate (nat (GetTotalSize s) * GetItemSize dt) 0),
        next_addr := Suc (next_addr h)\<rparr>)"

definition EmptyLike :: "Array \<Rightarrow> nat \<Rightarrow> Array cuda" where
  "EmptyLike a dev = Empty (shape a) (dtype a) dev"

text \<open>Modelled from the spec: \<open>Device::AsType\<close> is missing from the sources.
  Section 6 names it the dtype cast: it converts the elements of the source into the
  destination's dtype and stores them in the destination.\<close>

definition device_AsType :: "env \<Rightarrow> Array \<Rightarrow> Array \<Rightarrow> unit cuda" where
  "device_AsType E src dst h =
     (Inr (),
      h\<lparr>mem := (mem h)(raw_data dst := AsTypeBytes E (dtype src) (dtype dst) (mem h (raw_data src))),
        trace := trace h @ [AsTypeEv (raw_data src) (dtype src) (raw_data dst) (dtype dst)]\<rparr>)"

text \<open>Modelled from the spec: \<open>Array::AsType\<close> is missing from the sources. It
  returns a new contiguous array of the requested dtype holding the converted
  elements (section 4.2, step 5: "temporary casted copies").\<close>

definition Array_AsType :: "env \<Rightarrow> Array \<Rightarrow> Dtype \<Rightarrow> Array cuda" where
  "Array_AsType E a dt =
     bind (Empty (shape a) dt (device a)) (\<lambda>out.
     bind (device_AsType E a out) (\<lambda>_.
     ret out))"

text \<open>Modelled from the spec: \<open>internal::AsContiguous\<close> is missing from the
  sources. Section 4.2, step 2, has it a no-op on an array that is already contiguous
  (and of the requested dtype); otherwise it returns a converted contiguous copy.\<close>

definition AsContiguous :: "env \<Rightarrow> Array \<Rightarrow> Dtype \<Rightarrow> Array cuda" where
  "AsContiguous E a dt =
     (if is_contiguous a \<and> dtype a = dt then ret a else Array_AsType E a dt)"

text \<open>Modelled from the spec: \<open>Device::MemoryCopyFrom\<close> is missing from the
  sources. Section 6 names it the device-to-device byte copy: the first \<open>n\<close>
  bytes of the destination become the first \<open>n\<close> bytes of the source.\<close>

definition MemoryCopyFrom :: "addr \<Rightarrow> addr \<Rightarrow> nat \<Rightarrow> unit cuda" where
  "MemoryCopyFrom dst src n h =
     (Inr (),
      h\<lparr>mem := (mem h)(dst := take n (mem h src) @ drop n (mem h dst)),
        trace := trace h @ [MemoryCopyEv dst src n]\<rparr>)"

text \<open>Modelled from the spec: \<open>internal::ReduceShape\<close> (with \<open>keepdims\<close>) is
  missing from the sources. Section 3 has the parameter shape equal to the input's
  shape with the reduction axes collapsed to size 1.\<close>

definition ReduceShape :: "Shape \<Rightarrow> Axes \<Rightarrow> Shape" where
  "ReduceShape s axis =
     map (\<lambda>i. if int i \<in> set (map sint axis) then 1 else s ! i) [0..<length s]"

subsection \<open>\<open>GetBatchNormMode\<close>\<close>

fun GetBatchNormMode :: "Axes \<Rightarrow> error + cudnnBatchNormMode_t" where
  "GetBatchNormMode axis =
     (if length axis = 1 \<and> sint (axis ! 0) = 0 then Inr CUDNN_BATCHNORM_PER_ACTIVATION
      else if (length axis = 3 \<and> sint (axis ! 0) = 0 \<and> sint (axis ! 1) = 2 \<and> sint (axis ! 2) = 3)
            \<or> (length axis = 4 \<and> sint (axis ! 0) = 0 \<and> sint (axis ! 1) = 2 \<and> sint (axis ! 2) = 3
                \<and> sint (axis ! 3) = 4)
      then Inr CUDNN_BATCHNORM_SPATIAL
      else Inl (DimensionError axis))"

subsection \<open>\<open>UpdateRunning\<close>\<close>

definition UpdateRunning :: "env \<Rightarrow> Array \<Rightarrow> Array \<Rightarrow> unit cuda" where
  "UpdateRunning E running running_updated =
     bind (CHAINERX_ASSERT E (is_contiguous running)) (\<lambda>_.
     bind (CHAINERX_ASSERT E (is_contiguous running_updated)) (\<lambda>_.
     bind (CHAINERX_ASSERT E (device running = device running_updated)) (\<lambda>_.
     bind (CHAINERX_ASSERT E
             ((dtype running = dtype running_updated)
               = (raw_data running = raw_data running_updated))) (\<lambda>_.
     if dtype running = dtype running_updated then ret ()
     else
       bind (Array_AsType E running_updated (dtype running)) (\<lambda>running_casted_back.
       MemoryCopyFrom (raw_data running) (raw_data running_casted_back) (GetNBytes running))))))"

subsection \<open>\<open>CudnnBNTensorDescriptor\<close>\<close>

definition CudnnBNTensorDescriptor ::
  "env \<Rightarrow> TensorDescriptor \<Rightarrow> cudnnBatchNormMode_t \<Rightarrow> TensorDescriptor cuda" where
  "CudnnBNTensorDescriptor E x_desc mode =
     (case cudnnDeriveBNTensorDescriptor E x_desc mode of
        None \<Rightarrow> throw (CudnnError BadStatus)
      | Some d \<Rightarrow> ret d)"

text \<open>\<open>GetDtype\<close> reads the data type the descriptor stores and maps it.\<close>

definition GetDtype :: "TensorDescriptor \<Rightarrow> error + Dtype" where
  "GetDtype d =
     (case desc_dtype d of
        CUDNN_DATA_HALF \<Rightarrow> Inr kFloat16
      | CUDNN_DATA_FLOAT \<Rightarrow> Inr kFloat32
      | CUDNN_DATA_DOUBLE \<Rightarrow> Inr kFloat64
      | CUDNN_DATA_OTHER n \<Rightarrow> Inl (DtypeError (CUDNN_DATA_OTHER n)))"

text \<open>The descriptor of the contiguous input, as the constructor of
  \<open>cuda_internal::CudnnTensorDescriptor\<close> builds it.\<close>

definition make_x_desc :: "env \<Rightarrow> Array \<Rightarrow> TensorDescriptor cuda" where
  "make_x_desc E a =
     (case CudnnTensorDescriptor E (dtype a) (shape a) of
        None \<Rightarrow> throw TensorDescriptorError
      | Some d \<Rightarrow> ret d)"

subsection \<open>The native calls\<close>

text \<open>\<open>device.cudnn_handle().Call(f, ...)\<close> runs the primitive on the buffers
  the pointers name and throws \<open>CudnnError\<close> for a status other than success.
  The arguments are listed in the order of the source.\<close>

definition ForwardTrainingCall ::
  "env \<Rightarrow> cudnnBatchNormMode_t \<Rightarrow> TensorDescriptor \<Rightarrow> Array \<Rightarrow> Array \<Rightarrow> TensorDescriptor
    \<Rightarrow> Array \<Rightarrow> Array \<Rightarrow> rat \<Rightarrow> Array \<Rightarrow> Array \<Rightarrow> rat \<Rightarrow> Array \<Rightarrow> Array \<Rightarrow> unit cuda" where
  "ForwardTrainingCall E mode x_desc x_c out bn_desc gamma_c beta_c factor
       running_mean_c running_var_c eps x_mean_a x_inv_std_a h =
     (let r = cudnnBatchNormalizationForwardTraining E mode x_desc (mem h (raw_data x_c)) bn_desc
                (mem h (raw_data gamma_c)) (mem h (raw_data beta_c)) factor
                (mem h (raw_data running_mean_c)) (mem h (raw_data running_var_c)) eps;
          args = \<lparr>ft_mode = mode, ft_x = raw_data x_c, ft_y = raw_data out,
                  ft_scale = raw_data gamma_c, ft_bias = raw_data beta_c, ft_factor = factor,
                  ft_running_mean = raw_data running_mean_c,
                  ft_running_var = raw_data running_var_c, ft_eps = eps,
                  ft_save_mean = raw_data x_mean_a, ft_save_inv_std = raw_data x_inv_std_a\<rparr>;
          h1 = h\<lparr>trace := trace h @ [ForwardTrainingEv args r]\<rparr>
      in case r of
           None \<Rightarrow> (Inl (CudnnError BadStatus), h1)
         | Some (y, new_mean, new_var, save_mean, save_inv_std) \<Rightarrow>
             (Inr (),
              h1\<lparr>mem := (mem h)(raw_data out := y,
                                raw_data running_mean_c := new_mean,
                                raw_data running_var_c := new_var,
                                raw_data x_mean_a := save_mean,
                                raw_data x_inv_std_a := save_inv_std)\<rparr>))"

definition BackwardCall ::
  "env \<Rightarrow> cudnnBatchNormMode_t \<Rightarrow> TensorDescriptor \<Rightarrow> Array \<Rightarrow> Array \<Rightarrow> Array \<Rightarrow> TensorDescriptor
    \<Rightarrow> Array \<Rightarrow> Array \<Rightarrow> Array \<Rightarrow> rat \<Rightarrow> Array \<Rightarrow> Array \<Rightarrow> unit cuda" where
  "BackwardCall E mode x_desc x_c gout_c gx_c bn_desc gamma_c ggamma_c gbeta_c eps
       x_mean_a x_inv_std_a h =
     (let r = cudnnBatchNormalizationBackward E mode x_desc (mem h (raw_data x_c))
                (mem h (raw_data gout_c)) bn_desc (mem h (raw_data gamma_c)) eps
                (mem h (raw_data x_mean_a)) (mem h (raw_data x_inv_std_a));
          args = \<lparr>bw_mode = mode, bw_x = raw_data x_c, bw_dy = raw_data gout_c,
                  bw_dx = raw_data gx_c, bw_scale = raw_data gamma_c,
                  bw_dscale = raw_data ggamma_c, bw_dbias = raw_data gbeta_c, bw_eps = eps,
                  bw_save_mean = raw_data x_mean_a, bw_save_inv_std = raw_data x_inv_std_a\<rparr>;
          h1 = h\<lparr>trace := trace h @ [BackwardEv args r]\<rparr>
      in case r of
           None \<Rightarrow> (Inl (CudnnError BadStatus), h1)
         | Some (dx, dscale, dbias) \<Rightarrow>
             (Inr (),
              h1\<lparr>mem := (mem h)(raw_data gx_c := dx,
                                raw_data ggamma_c := dscale,
                                raw_data gbeta_c := dbias)\<rparr>))"

definition ForwardInferenceCall ::
  "env \<Rightarrow> cudnnBatchNormMode_t \<Rightarrow> TensorDescriptor \<Rightarrow> Array \<Rightarrow> Array \<Rightarrow> TensorDescriptor
    \<Rightarrow> Array \<Rightarrow> Array \<Rightarrow> Array \<Rightarrow> Array \<Rightarrow> rat \<Rightarrow> unit cuda" where
  "ForwardInferenceCall E mode x_desc x_c out bn_desc gamma_c beta_c mean_c var_c eps h =
     (let r = cudnnBatchNormalizationForwardInference E mode x_desc (mem h (raw_data x_c)) bn_desc
                (mem h (raw_data gamma_c)) (mem h (raw_data beta_c))
                (mem h (raw_data mean_c)) (mem h (raw_data var_c)) eps;
          args = \<lparr>fi_mode = mode, fi_x = raw_data x_c, fi_y = raw_data out,
                  fi_scale = raw_data gamma_c, fi_bias = raw_data beta_c,
                  fi_mean = raw_data mean_c, fi_var = raw_data var_c, fi_eps = eps\<rparr>;
          h1 = h\<lparr>trace := trace h @ [ForwardInferenceEv args r]\<rparr>
      in case r of
           None \<Rightarrow> (Inl (CudnnError BadStatus), h1)
         | Some y \<Rightarrow> (Inr (), h1\<lparr>mem := (mem h)(raw_data out := y)\<rparr>))"

subsection \<open>\<open>CudaBatchNormForwardOp::Call\<close>\<close>

text \<open>The conditions asserted in the \<open>if (CHAINERX_DEBUG)\<close> block.\<close>

definition ForwardDebugConditions ::
  "Array \<Rightarrow> Array \<Rightarrow> Array \<Rightarrow> Array \<Rightarrow> Array \<Rightarrow> Axes \<Rightarrow> bool" where
  "ForwardDebugConditions x gamma beta running_mean running_var axis =
     (let reduced_shape = ReduceShape (shape x) axis;
          reduced_total_size = GetTotalSize reduced_shape
      in shape gamma = reduced_shape \<and> shape beta = reduced_shape
         \<and> GetTotalSize (shape running_mean) = reduced_total_size
         \<and> GetTotalSize (shape running_var) = reduced_total_size
         \<and> device x = device gamma \<and> device x = device beta
         \<and> device x = device running_mean \<and> device x = device running_var
         \<and> GetKind (dtype x) = kFloatKind \<and> GetKind (dtype gamma) = kFloatKind
         \<and> GetKind (dtype beta) = kFloatKind \<and> GetKind (dtype running_mean) = kFloatKind
         \<and> GetKind (dtype running_var) = kFloatKind)"

text \<open>The value returned stands for the \<open>state\<close> parameter (passed by
  reference) as the call leaves it. \<open>dynamic_cast<CudaDevice&>\<close> and the
  \<open>CudaSetDeviceScope\<close> select the device of \<open>x\<close> and do not touch the
  arrays.\<close>

definition CudaBatchNormForwardOp ::
  "env \<Rightarrow> Array \<Rightarrow> Array \<Rightarrow> Array \<Rightarrow> Array \<Rightarrow> Array \<Rightarrow> rat \<Rightarrow> rat \<Rightarrow> Axes \<Rightarrow> Array
    \<Rightarrow> state_arg \<Rightarrow> state_arg cuda" where
  "CudaBatchNormForwardOp E x gamma beta running_mean running_var eps decay axis out state =
     bind (if CHAINERX_DEBUG E
           then CHAINERX_ASSERT E (ForwardDebugConditions x gamma beta running_mean running_var axis)
           else ret ()) (\<lambda>_.
     if eps < CUDNN_BN_MIN_EPSILON E
     then throw (CudnnError (MinEpsilon (CUDNN_BN_MIN_EPSILON E) eps))
     else if \<not> is_contiguous running_mean
     then throw (DeviceError
                  ''Running mean must to be contiguous for cuDNN to update it in-place.'')
     else if \<not> is_contiguous running_var
     then throw (DeviceError
                  ''Running variance must to be contiguous for cuDNN to update it in-place.'')
     else
     bind (AsContiguous E x (dtype x)) (\<lambda>x_c.
     bind (make_x_desc E x_c) (\<lambda>x_desc.
     bind (of_result (GetBatchNormMode axis)) (\<lambda>mode.
     bind (CudnnBNTensorDescriptor E x_desc mode) (\<lambda>gamma_beta_mean_var_desc.
     bind (of_result (GetDtype gamma_beta_mean_var_desc)) (\<lambda>gamma_beta_mean_var_dtype.
     bind (AsContiguous E gamma gamma_beta_mean_var_dtype) (\<lambda>gamma_casted_cont.
     bind (AsContiguous E beta gamma_beta_mean_var_dtype) (\<lambda>beta_casted_cont.
     bind (CHAINERX_ASSERT E (is_contiguous running_mean)) (\<lambda>_.
     bind (CHAINERX_ASSERT E (is_contiguous running_var)) (\<lambda>_.
     bind (if dtype running_mean \<noteq> gamma_beta_mean_var_dtype
           then Array_AsType E running_mean gamma_beta_mean_var_dtype
           else ret running_mean) (\<lambda>running_mean_casted.
     bind (if dtype running_var \<noteq> gamma_beta_mean_var_dtype
           then Array_AsType E running_var gamma_beta_mean_var_dtype
           else ret running_var) (\<lambda>running_var_casted.
     bind (EmptyLike gamma_casted_cont (device x)) (\<lambda>x_mean_a.
     bind (EmptyLike gamma_casted_cont (device x)) (\<lambda>x_inv_std_a.
     bind (ForwardTrainingCall E mode x_desc x_c out gamma_beta_mean_var_desc
             gamma_casted_cont beta_casted_cont (1 - decay)
             running_mean_casted running_var_casted eps x_mean_a x_inv_std_a) (\<lambda>_.
     bind (UpdateRunning E running_mean running_mean_casted) (\<lambda>_.
     bind (UpdateRunning E running_var running_var_casted) (\<lambda>_.
     ret (case state of
            None \<Rightarrow> None
          | Some _ \<Rightarrow> Some (Some \<lparr>x_cont = x_c, x_mean = x_mean_a,
                                   x_inv_std = x_inv_std_a\<rparr>)))))))))))))))))))"

subsection \<open>\<open>CudaBatchNormBackwardOp::Call\<close>\<close>

text \<open>The conditions asserted in the \<open>if (CHAINERX_DEBUG)\<close> block; an
  \<open>Array\<close> of the model always has a body.\<close>

definition BackwardDebugConditions :: "CudaBatchNormState \<Rightarrow> Array \<Rightarrow> Array \<Rightarrow> Axes \<Rightarrow> bool" where
  "BackwardDebugConditions s gamma gout axis =
     (let reduced_shape = ReduceShape (shape (x_cont s)) axis
      in reduced_shape = shape gamma \<and> shape (x_cont s) = shape gout
         \<and> device (x_cont s) = device (x_mean s) \<and> device (x_cont s) = device (x_inv_std s)
         \<and> device (x_cont s) = device gamma \<and> device (x_cont s) = device gout
         \<and> is_contiguous (x_cont s))"

text \<open>\<open>state->get()\<close>, cast to a pointer to a state: the pointer the optional
  holds. From a disengaged optional the compiled code takes whatever the unused
  storage holds; for it, as for a null pointer, there is no state behind the
  pointer.\<close>

definition state_get :: "state_arg \<Rightarrow> CudaBatchNormState option" where
  "state_get state = (case state of None \<Rightarrow> None | Some p \<Rightarrow> p)"

text \<open>The parameter \<open>x\<close> is unnamed in the source. Lines 237 to 240 take the
  pointer and bind three references to the fields of the state; they read nothing.
  The first read through the pointer is \<open>x_cont.shape()\<close> in the
  \<open>if (CHAINERX_DEBUG)\<close> block and, with that block compiled out,
  \<open>x_cont.device()\<close> after the check on \<open>eps\<close>. With no state behind the
  pointer that read has no defined behaviour: the model stops there with
  \<open>UndefinedBehaviour\<close>.\<close>

definition CudaBatchNormBackwardOp ::
  "env \<Rightarrow> Array \<Rightarrow> Array \<Rightarrow> Array \<Rightarrow> rat \<Rightarrow> Axes \<Rightarrow> Array \<Rightarrow> Array \<Rightarrow> Array
    \<Rightarrow> state_arg \<Rightarrow> unit cuda" where
  "CudaBatchNormBackwardOp E x gamma gout eps axis gx ggamma gbeta state =
     bind (CHAINERX_ASSERT E (state \<noteq> None)) (\<lambda>_.
     bind (if CHAINERX_DEBUG E
           then (case state_get state of
                   None \<Rightarrow> throw UndefinedBehaviour
                 | Some s \<Rightarrow> CHAINERX_ASSERT E (BackwardDebugConditions s gamma gout axis))
           else ret ()) (\<lambda>_.
     if eps < CUDNN_BN_MIN_EPSILON E
     then throw (CudnnError (MinEpsilon (CUDNN_BN_MIN_EPSILON E) eps))
     else
     case state_get state of
       None \<Rightarrow> throw UndefinedBehaviour
     | Some s \<Rightarrow>
     bind (AsContiguous E gout (dtype gout)) (\<lambda>gout_cont.
     bind (EmptyLike (x_cont s) (device (x_cont s))) (\<lambda>gx_cont.
     bind (make_x_desc E (x_cont s)) (\<lambda>x_desc.
     bind (of_result (GetBatchNormMode axis)) (\<lambda>mode.
     bind (CudnnBNTensorDescriptor E x_desc mode) (\<lambda>gamma_beta_mean_var_desc.
     bind (of_result (GetDtype gamma_beta_mean_var_desc)) (\<lambda>gamma_beta_mean_var_dtype.
     bind (AsContiguous E gamma gamma_beta_mean_var_dtype) (\<lambda>gamma_casted_cont.
     bind (Empty (ReduceShape (shape (x_cont s)) axis) gamma_beta_mean_var_dtype
             (device (x_cont s))) (\<lambda>ggamma_casted_cont.
     bind (Empty (ReduceShape (shape (x_cont s)) axis) gamma_beta_mean_var_dtype
             (device (x_cont s))) (\<lambda>gbeta_casted_cont.
     bind (CHAINERX_ASSERT E (gamma_beta_mean_var_dtype = dtype (x_mean s))) (\<lambda>_.
     bind (CHAINERX_ASSERT E (gamma_beta_mean_var_dtype = dtype (x_inv_std s))) (\<lambda>_.
     bind (CHAINERX_ASSERT E (is_contiguous (x_mean s))) (\<lambda>_.
     bind (CHAINERX_ASSERT E (is_contiguous (x_inv_std s))) (\<lambda>_.
     bind (BackwardCall E mode x_desc (x_cont s) gout_cont gx_cont gamma_beta_mean_var_desc
             gamma_casted_cont ggamma_casted_cont gbeta_casted_cont eps
             (x_mean s) (x_inv_std s)) (\<lambda>_.
     bind (device_AsType E gx_cont gx) (\<lambda>_.
     bind (device_AsType E ggamma_casted_cont ggamma) (\<lambda>_.
     device_AsType E gbeta_casted_cont gbeta))))))))))))))))))"

subsection \<open>\<open>CudaFixedBatchNormForwardOp::Call\<close>\<close>

definition FixedDebugConditions ::
  "Array \<Rightarrow> Array \<Rightarrow> Array \<Rightarrow> Array \<Rightarrow> Array \<Rightarrow> Axes \<Rightarrow> bool" where
  "FixedDebugConditions x gamma beta mean_a var_a axis =
     (let reduced_shape = ReduceShape (shape x) axis
      in shape gamma = reduced_shape \<and> shape beta = reduced_shape
         \<and> shape mean_a = reduced_shape \<and> shape var_a = reduced_shape
         \<and> device x = device gamma \<and> device x = device beta
         \<and> device x = device mean_a \<and> device x = device var_a
         \<and> GetKind (dtype x) = kFloatKind \<and> GetKind (dtype gamma) = kFloatKind
         \<and> GetKind (dtype beta) = kFloatKind \<and> GetKind (dtype mean_a) = kFloatKind
         \<and> GetKind (dtype var_a) = kFloatKind)"

text \<open>The native call takes \<open>GetBatchNormMode(axis)\<close> a second time.\<close>

definition CudaFixedBatchNormForwardOp ::
  "env \<Rightarrow> Array \<Rightarrow> Array \<Rightarrow> Array \<Rightarrow> Array \<Rightarrow> Array \<Rightarrow> rat \<Rightarrow> Axes \<Rightarrow> Array \<Rightarrow> unit cuda" where
  "CudaFixedBatchNormForwardOp E x gamma beta mean_a var_a eps axis out =
     bind (if CHAINERX_DEBUG E
           then CHAINERX_ASSERT E (FixedDebugConditions x gamma beta mean_a var_a axis)
           else ret ()) (\<lambda>_.
     if eps < CUDNN_BN_MIN_EPSILON E
     then throw (CudnnError (MinEpsilon (CUDNN_BN_MIN_EPSILON E) eps))
     else
     bind (AsContiguous E x (dtype x)) (\<lambda>x_c.
     bind (make_x_desc E x_c) (\<lambda>x_desc.
     bind (of_result (GetBatchNormMode axis)) (\<lambda>mode.
     bind (CudnnBNTensorDescriptor E x_desc mode) (\<lambda>gamma_beta_mean_var_desc.
     bind (of_result (GetDtype gamma_beta_mean_var_desc)) (\<lambda>gamma_beta_mean_var_dtype.
     bind (AsContiguous E gamma gamma_beta_mean_var_dtype) (\<lambda>gamma_casted_cont.
     bind (AsContiguous E beta gamma_beta_mean_var_dtype) (\<lambda>beta_casted_cont.
     bind (AsContiguous E mean_a gamma_beta_mean_var_dtype) (\<lambda>mean_casted_cont.
     bind (AsContiguous E var_a gamma_beta_mean_var_dtype) (\<lambda>var_casted_cont.
     bind (of_result (GetBatchNormMode axis)) (\<lambda>mode2.
     ForwardInferenceCall E mode2 x_desc x_c out gamma_beta_mean_var_desc
       gamma_casted_cont beta_casted_cont mean_casted_cont var_casted_cont eps)))))))))))"

subsection \<open>Notions used in the statements\<close>

text \<open>The parameter dtype an operator derives for an input: the descriptor of the
  (contiguous) input, the mode of the axes, the derived descriptor and its dtype, in
  the order of the source; \<open>None\<close> when one of the four steps throws.\<close>

definition param_dtype :: "env \<Rightarrow> Array \<Rightarrow> Axes \<Rightarrow> Dtype option" where
  "param_dtype E x axis =
     (case CudnnTensorDescriptor E (dtype x) (shape x) of
        None \<Rightarrow> None
      | Some x_desc \<Rightarrow>
          (case GetBatchNormMode axis of
             Inl e \<Rightarrow> None
           | Inr mode \<Rightarrow>
               (case cudnnDeriveBNTensorDescriptor E x_desc mode of
                  None \<Rightarrow> None
                | Some d \<Rightarrow> (case GetDtype d of Inl e \<Rightarrow> None | Inr dt \<Rightarrow> Some dt))))"

text \<open>\<open>extends_by h evs W h'\<close>: from \<open>h\<close> to \<open>h'\<close> the log grew by
  \<open>evs\<close>, buffers were only allocated, and of the buffers that existed only those
  in \<open>W\<close> were written.\<close>

definition extends_by :: "heap \<Rightarrow> event list \<Rightarrow> addr set \<Rightarrow> heap \<Rightarrow> bool" where
  "extends_by h evs W h' =
     (trace h' = trace h @ evs \<and> next_addr h \<le> next_addr h'
      \<and> (\<forall>a. a < next_addr h \<and> a \<notin> W \<longrightarrow> mem h' a = mem h a))"

fun is_astype :: "event \<Rightarrow> bool" where
  "is_astype (AsTypeEv _ _ _ _) = True"
| "is_astype _ = False"

subsection \<open>A concrete environment and concrete calls\<close>

text \<open>The closed instances below run the operators in this environment: the
  parameter descriptor is derived as cuDNN documents it (half-precision input takes
  single-precision parameters), the conversion zero-extends or truncates the buffer
  to the size of the destination dtype, and the three primitives return placeholder
  bytes. The minimum epsilon is taken as \<open>1e-5\<close>.\<close>

definition sample_env :: "bool \<Rightarrow> env" where
  "sample_env dbg =
     \<lparr>CHAINERX_DEBUG = dbg,
      CUDNN_BN_MIN_EPSILON = 1 / 100000,
      CudnnTensorDescriptor = (\<lambda>dt s.
        case dt of
          kFloat16 \<Rightarrow> Some \<lparr>desc_dtype = CUDNN_DATA_HALF, desc_shape = s\<rparr>
        | kFloat32 \<Rightarrow> Some \<lparr>desc_dtype = CUDNN_DATA_FLOAT, desc_shape = s\<rparr>
        | kFloat64 \<Rightarrow> Some \<lparr>desc_dtype = CUDNN_DATA_DOUBLE, desc_shape = s\<rparr>
        | _ \<Rightarrow> None),
      cudnnDeriveBNTensorDescriptor = (\<lambda>d mode.
        Some \<lparr>desc_dtype = (if desc_dtype d = CUDNN_DATA_HALF then CUDNN_DATA_FLOAT
                             else desc_dtype d),
              desc_shape = (case mode of
                              CUDNN_BATCHNORM_PER_ACTIVATION \<Rightarrow> 1 # tl (desc_shape d)
                            | CUDNN_BATCHNORM_SPATIAL \<Rightarrow>
                                1 # take 1 (tl (desc_shape d))
                                  @ replicate (length (desc_shape d) - 2) 1)\<rparr>),
      AsTypeBytes = (\<lambda>src dst bs.
        take (length bs div GetItemSize src * GetItemSize dst) (bs @ replicate (length bs) 0)),
      cudnnBatchNormalizationForwardTraining = (\<lambda>mode xd xs bd g b f rm rv eps.
        Some (xs, map (\<lambda>w. w + 1) rm, map (\<lambda>w. w + 2) rv, g, b)),
      cudnnBatchNormalizationBackward = (\<lambda>mode xd xs dy bd g eps sm si.
        Some (dy, sm, si)),
      cudnnBatchNormalizationForwardInference = (\<lambda>mode xd xs bd g b m v eps. Some xs)\<rparr>"

definition sample_array :: "addr \<Rightarrow> Dtype \<Rightarrow> Array" where
  "sample_array a dt =
     \<lparr>raw_data = a, dtype = dt, shape = [1, 1, 1, 1], is_contiguous = True, device = 0\<rparr>"

definition sample_heap :: heap where
  "sample_heap =
     \<lparr>mem = (\<lambda>_. [])(0 := [1, 2], 1 := [3, 4, 5, 6], 2 := [7, 8, 9, 10], 3 := [11, 12],
                       4 := [13, 14, 15, 16], 5 := [0, 0]),
      next_addr = 6, trace = []\<rparr>"

definition sample_forward :: "(error + state_arg) \<times> heap" where
  "sample_forward =
     CudaBatchNormForwardOp (sample_env True) (sample_array 0 kFloat16) (sample_array 1 kFloat32)
       (sample_array 2 kFloat32) (sample_array 3 kFloat16) (sample_array 4 kFloat32)
       (1 / 100000) (9 / 10) [0, 2, 3] (sample_array 5 kFloat16) (Some None) sample_heap"

definition sample_state :: CudaBatchNormState where
  "sample_state =
     \<lparr>x_cont = sample_array 0 kFloat16, x_mean = sample_array 7 kFloat32,
      x_inv_std = sample_array 8 kFloat32\<rparr>"

text \<open>A heap that also holds the two saved statistics of \<open>sample_state\<close> and
  three gradient buffers (addresses 9, 10, 11).\<close>

definition sample_heap2 :: heap where
  "sample_heap2 =
     \<lparr>mem = (\<lambda>_. [])(0 := [1, 2], 1 := [3, 4, 5, 6], 5 := [21, 22], 7 := [31, 32, 33, 34],
                       8 := [41, 42, 43, 44], 9 := [0, 0], 10 := [0, 0, 0, 0],
                       11 := [0, 0, 0, 0]),
      next_addr = 12, trace = []\<rparr>"

subsection \<open>Notions used in the proofs\<close>

text \<open>\<open>frames W m\<close>: whatever its outcome, \<open>m\<close> only allocates and writes, of
  the buffers that exist, only those in \<open>W\<close>. \<open>never_throws e m\<close>: \<open>m\<close>
  does not throw \<open>e\<close>.\<close>

definition frames :: "addr set \<Rightarrow> 'a cuda \<Rightarrow> bool" where
  "frames W m =
     (\<forall>h. next_addr h \<le> next_addr (snd (m h))
          \<and> (\<forall>a. a < next_addr h \<and> a \<notin> W \<longrightarrow> mem (snd (m h)) a = mem h a))"


section \<open>Proofs\<close>

subsection \<open>The axis modes\<close>

declare GetBatchNormMode.simps [simp del]

lemma sint8_eq_numeral:
  "(sint (w :: 8 word) = 0) = (w = 0)"
  "(sint (w :: 8 word) = 2) = (w = 2)"
  "(sint (w :: 8 word) = 3) = (w = 3)"
  "(sint (w :: 8 word) = 4) = (w = 4)"
proof -
  have inj: "\<And>v. (sint w = sint (v :: 8 word)) = (w = v)"
    by (auto simp: signed_word_eqI)
  show "(sint w = 0) = (w = 0)" using inj [of 0] by simp
  show "(sint w = 2) = (w = 2)" using inj [of 2] by simp
  show "(sint w = 3) = (w = 3)" using inj [of 3] by simp
  show "(sint w = 4) = (w = 4)" using inj [of 4] by simp
qed

lemma length_one_iff: "(length xs = 1 \<and> xs ! 0 = a) = (xs = [a])"
  by (cases xs) auto

lemma length_three_iff:
  "(length xs = 3 \<and> xs ! 0 = a \<and> xs ! 1 = b \<and> xs ! 2 = c) = (xs = [a, b, c])"
proof (cases xs)
  case Nil then show ?thesis by simp
next
  case (Cons x ys)
  then show ?thesis
    by (cases ys; cases "tl ys"; cases "tl (tl ys)") (auto simp: numeral_3_eq_3)
qed

lemma length_four_iff:
  "(length xs = 4 \<and> xs ! 0 = a \<and> xs ! 1 = b \<and> xs ! 2 = c \<and> xs ! 3 = d) = (xs = [a, b, c, d])"
proof (cases xs)
  case Nil then show ?thesis by simp
next
  case (Cons x ys)
  then show ?thesis
    by (cases ys; cases "tl ys"; cases "tl (tl ys)"; cases "tl (tl (tl ys))")
       (auto simp: numeral_3_eq_3 numeral_eq_Suc)
qed

lemma GetBatchNormMode_eq:
  "GetBatchNormMode axis =
      (if axis = [0] then Inr CUDNN_BATCHNORM_PER_ACTIVATION
       else if axis = [0, 2, 3] \<or> axis = [0, 2, 3, 4] then Inr CUDNN_BATCHNORM_SPATIAL
       else Inl (DimensionError axis))"
proof -
  have a: "(length axis = 1 \<and> sint (axis ! 0) = 0) = (axis = [0])"
    using length_one_iff [of axis 0] by (simp add: sint8_eq_numeral)
  have b: "(length axis = 3 \<and> sint (axis ! 0) = 0 \<and> sint (axis ! 1) = 2 \<and> sint (axis ! 2) = 3)
            = (axis = [0, 2, 3])"
    using length_three_iff [of axis 0 2 3] by (simp add: sint8_eq_numeral)
  have c: "(length axis = 4 \<and> sint (axis ! 0) = 0 \<and> sint (axis ! 1) = 2 \<and> sint (axis ! 2) = 3
             \<and> sint (axis ! 3) = 4) = (axis = [0, 2, 3, 4])"
    using length_four_iff [of axis 0 2 3 4] by (simp add: sint8_eq_numeral)
  show ?thesis unfolding GetBatchNormMode.simps a b c ..
qed

subsection \<open>Evaluation of the concrete calls\<close>

lemmas eval_defs =
  sample_env_def sample_array_def sample_heap_def
  bind_def ret_def throw_def of_result_def CHAINERX_ASSERT_def Empty_def EmptyLike_def
  device_AsType_def Array_AsType_def AsContiguous_def MemoryCopyFrom_def ReduceShape_def
  UpdateRunning_def CudnnBNTensorDescriptor_def GetDtype_def make_x_desc_def
  ForwardTrainingCall_def BackwardCall_def ForwardInferenceCall_def
  ForwardDebugConditions_def BackwardDebugConditions_def FixedDebugConditions_def
  GetTotalSize_def GetNBytes_def Let_def GetBatchNormMode_eq

text \<open>
  Claim C5. \<open>GetBatchNormMode\<close> is a function of the axes alone. It returns the
  per-activation mode exactly for the axes \<open>(0)\<close>, the spatial mode exactly for
  the axes \<open>(0, 2, 3)\<close> and \<open>(0, 2, 3, 4)\<close>, and for every other sequence of
  axes it throws a \<open>DimensionError\<close> that carries these axes. The axes are the
  ordered sequence the source indexes.
\<close>

theorem GetBatchNormMode_modes:
  "(GetBatchNormMode axis = Inr CUDNN_BATCHNORM_PER_ACTIVATION) = (axis = [0])
   \<and> (GetBatchNormMode axis = Inr CUDNN_BATCHNORM_SPATIAL) = (axis = [0, 2, 3] \<or> axis = [0, 2, 3, 4])
   \<and> (GetBatchNormMode axis = Inl (DimensionError axis))
       = (axis \<noteq> [0] \<and> axis \<noteq> [0, 2, 3] \<and> axis \<noteq> [0, 2, 3, 4])"
  unfolding GetBatchNormMode_eq by auto

subsection \<open>Steps of a computation\<close>

lemmas head_defs = bind_def CHAINERX_ASSERT_def throw_def ret_def

lemma bindE:
  assumes "bind m f h = (Inr v, h')"
  obtains u h1 where "m h = (Inr u, h1)" and "f u h1 = (Inr v, h')"
  using assms by (auto simp: bind_def split: prod.splits sum.splits)

lemma if_throwE:
  assumes "(if c then throw e else m) h = (Inr v, h')"
  obtains "\<not> c" and "m h = (Inr v, h')"
  using assms by (auto simp: throw_def split: if_splits)

lemma ret_iff [simp]: "(ret v h = (r, h')) = (r = Inr v \<and> h' = h)"
  by (auto simp: ret_def)

lemma throw_iff [simp]: "(throw e h = (r, h')) = (r = Inl e \<and> h' = h)"
  by (auto simp: throw_def)

lemma of_result_Inr_iff [simp]:
  "(of_result r h = (Inr v, h')) = (r = Inr v \<and> h' = h)"
  by (cases r) (auto simp: of_result_def)

lemma CHAINERX_ASSERT_Inr_iff [simp]:
  "(CHAINERX_ASSERT E b h = (Inr u, h')) = ((b \<or> \<not> CHAINERX_DEBUG E) \<and> h' = h)"
  by (auto simp: CHAINERX_ASSERT_def)

lemma debug_block_Inr_iff [simp]:
  "((if CHAINERX_DEBUG E then CHAINERX_ASSERT E b else ret ()) h = (Inr u, h'))
     = ((b \<or> \<not> CHAINERX_DEBUG E) \<and> h' = h)"
  by auto

lemma make_x_desc_Inr_iff [simp]:
  "(make_x_desc E a h = (Inr d, h'))
     = (CudnnTensorDescriptor E (dtype a) (shape a) = Some d \<and> h' = h)"
  by (auto simp: make_x_desc_def split: option.splits)

lemma CudnnBNTensorDescriptor_Inr_iff [simp]:
  "(CudnnBNTensorDescriptor E d m h = (Inr b, h'))
     = (cudnnDeriveBNTensorDescriptor E d m = Some b \<and> h' = h)"
  by (auto simp: CudnnBNTensorDescriptor_def split: option.splits)

subsection \<open>What the array routines do to the heap\<close>

lemma extends_by_refl: "extends_by h [] {} h"
  by (simp add: extends_by_def)

lemma extends_by_trans:
  "extends_by h e1 W1 h1 \<Longrightarrow> extends_by h1 e2 W2 h2 \<Longrightarrow> extends_by h (e1 @ e2) (W1 \<union> W2) h2"
  by (auto simp: extends_by_def)

lemma extends_by_memD:
  "extends_by h evs W h' \<Longrightarrow> a < next_addr h \<Longrightarrow> a \<notin> W \<Longrightarrow> mem h' a = mem h a"
  by (simp add: extends_by_def)

lemma Empty_spec:
  assumes "Empty s dt dev h = (Inr a, h')"
  shows "a = \<lparr>raw_data = next_addr h, dtype = dt, shape = s, is_contiguous = True, device = dev\<rparr>"
    and "extends_by h [] {} h'" and "next_addr h' = Suc (next_addr h)"
  using assms by (auto simp: Empty_def extends_by_def)

lemma Array_AsType_spec:
  assumes "Array_AsType E a dt h = (Inr b, h')"
  shows "b = \<lparr>raw_data = next_addr h, dtype = dt, shape = shape a, is_contiguous = True,
              device = device a\<rparr>"
    and "extends_by h [AsTypeEv (raw_data a) (dtype a) (next_addr h) dt] {} h'"
    and "next_addr h' = Suc (next_addr h)"
    and "raw_data a < next_addr h \<Longrightarrow>
           mem h' (next_addr h) = AsTypeBytes E (dtype a) dt (mem h (raw_data a))"
  using assms
  by (auto simp: Array_AsType_def Empty_def device_AsType_def extends_by_def elim!: bindE)

lemma AsContiguous_spec:
  assumes "AsContiguous E a dt h = (Inr b, h')"
  shows "is_contiguous b" and "dtype b = dt" and "shape b = shape a" and "device b = device a"
    and "\<exists>evs. extends_by h evs {} h' \<and> list_all is_astype evs"
    and "raw_data b = raw_data a \<or> next_addr h \<le> raw_data b"
proof -
  show "is_contiguous b" "dtype b = dt" "shape b = shape a" "device b = device a"
    using assms by (auto simp: AsContiguous_def dest: Array_AsType_spec(1) split: if_splits)
  show "\<exists>evs. extends_by h evs {} h' \<and> list_all is_astype evs"
  proof (cases "is_contiguous a \<and> dtype a = dt")
    case True
    then have "h' = h" using assms by (simp add: AsContiguous_def)
    then show ?thesis using extends_by_refl by fastforce
  next
    case False
    then have "Array_AsType E a dt h = (Inr b, h')"
      using assms by (auto simp: AsContiguous_def split: if_splits)
    from Array_AsType_spec(2) [OF this] show ?thesis
      by (intro exI [of _ "[AsTypeEv (raw_data a) (dtype a) (next_addr h) dt]"]) simp
  qed
  show "raw_data b = raw_data a \<or> next_addr h \<le> raw_data b"
    using assms by (auto simp: AsContiguous_def dest: Array_AsType_spec(1) split: if_splits)
qed

lemma UpdateRunning_cases:
  assumes "UpdateRunning E r u h = (Inr (), h')"
  obtains (same) "dtype r = dtype u" and "h' = h"
    | (cast) "dtype r \<noteq> dtype u"
        and "h' = h\<lparr>mem := (mem h)
                      (next_addr h := replicate (nat (GetTotalSize (shape u)) * GetItemSize (dtype r)) 0,
                       next_addr h := AsTypeBytes E (dtype u) (dtype r)
                          (((mem h)(next_addr h := replicate (nat (GetTotalSize (shape u)) * GetItemSize (dtype r)) 0)) (raw_data u)),
                       raw_data r := take (GetNBytes r)
                          (((mem h)(next_addr h := AsTypeBytes E (dtype u) (dtype r)
                             (((mem h)(next_addr h := replicate (nat (GetTotalSize (shape u)) * GetItemSize (dtype r)) 0)) (raw_data u)))) (next_addr h))
                          @ drop (GetNBytes r) (((mem h)(next_addr h := AsTypeBytes E (dtype u) (dtype r)
                             (((mem h)(next_addr h := replicate (nat (GetTotalSize (shape u)) * GetItemSize (dtype r)) 0)) (raw_data u)))) (raw_data r))),
                    next_addr := Suc (next_addr h),
                    trace := trace h @ [AsTypeEv (raw_data u) (dtype u) (next_addr h) (dtype r),
                                        MemoryCopyEv (raw_data r) (next_addr h) (GetNBytes r)]\<rparr>"
proof (cases "dtype r = dtype u")
  case True
  with assms have "h' = h" by (auto simp: UpdateRunning_def elim!: bindE)
  with True show ?thesis by (rule same)
next
  case False
  with assms obtain cb h1 where
      a: "Array_AsType E u (dtype r) h = (Inr cb, h1)"
    and c: "MemoryCopyFrom (raw_data r) (raw_data cb) (GetNBytes r) h1 = (Inr (), h')"
    by (auto simp: UpdateRunning_def elim!: bindE)
  from a have "cb = \<lparr>raw_data = next_addr h, dtype = dtype r, shape = shape u,
                      is_contiguous = True, device = device u\<rparr>
        \<and> h1 = h\<lparr>mem := (mem h)
                      (next_addr h := replicate (nat (GetTotalSize (shape u)) * GetItemSize (dtype r)) 0,
                       next_addr h := AsTypeBytes E (dtype u) (dtype r)
                          (((mem h)(next_addr h := replicate (nat (GetTotalSize (shape u)) * GetItemSize (dtype r)) 0)) (raw_data u))),
                  next_addr := Suc (next_addr h),
                  trace := trace h @ [AsTypeEv (raw_data u) (dtype u) (next_addr h) (dtype r)]\<rparr>"
    by (auto simp: Array_AsType_def Empty_def device_AsType_def elim!: bindE)
  with c have "h' = h\<lparr>mem := (mem h)
                      (next_addr h := replicate (nat (GetTotalSize (shape u)) * GetItemSize (dtype r)) 0,
                       next_addr h := AsTypeBytes E (dtype u) (dtype r)
                          (((mem h)(next_addr h := replicate (nat (GetTotalSize (shape u)) * GetItemSize (dtype r)) 0)) (raw_data u)),
                       raw_data r := take (GetNBytes r)
                          (((mem h)(next_addr h := AsTypeBytes E (dtype u) (dtype r)
                             (((mem h)(next_addr h := replicate (nat (GetTotalSize (shape u)) * GetItemSize (dtype r)) 0)) (raw_data u)))) (next_addr h))
                          @ drop (GetNBytes r) (((mem h)(next_addr h := AsTypeBytes E (dtype u) (dtype r)
                             (((mem h)(next_addr h := replicate (nat (GetTotalSize (shape u)) * GetItemSize (dtype r)) 0)) (raw_data u)))) (raw_data r))),
                    next_addr := Suc (next_addr h),
                    trace := trace h @ [AsTypeEv (raw_data u) (dtype u) (next_addr h) (dtype r),
                                        MemoryCopyEv (raw_data r) (next_addr h) (GetNBytes r)]\<rparr>"
    by (auto simp: MemoryCopyFrom_def)
  with False show ?thesis by (rule cast)
qed

lemma ForwardTrainingCall_spec:
  assumes "ForwardTrainingCall E mode xd x_c out bd g b f rm rv eps xm xi h = (Inr (), h')"
  shows "\<exists>y nm nv sm si.
           trace h' = trace h @
             [ForwardTrainingEv
                \<lparr>ft_mode = mode, ft_x = raw_data x_c, ft_y = raw_data out, ft_scale = raw_data g,
                 ft_bias = raw_data b, ft_factor = f, ft_running_mean = raw_data rm,
                 ft_running_var = raw_data rv, ft_eps = eps, ft_save_mean = raw_data xm,
                 ft_save_inv_std = raw_data xi\<rparr> (Some (y, nm, nv, sm, si))]
         \<and> next_addr h' = next_addr h
         \<and> mem h' = (mem h)(raw_data out := y, raw_data rm := nm, raw_data rv := nv,
                            raw_data xm := sm, raw_data xi := si)"
  using assms
  by (auto simp: ForwardTrainingCall_def Let_def split: option.splits)

lemma cast_step_spec:
  assumes "(if dtype r \<noteq> pd then Array_AsType E r pd else ret r) h = (Inr c, h')"
  shows "dtype c = pd"
    and "\<exists>evs. extends_by h evs {} h' \<and> list_all is_astype evs"
    and "(dtype r = pd \<and> c = r \<and> h' = h)
         \<or> (dtype r \<noteq> pd \<and> raw_data c = next_addr h \<and> next_addr h' = Suc (next_addr h))"
proof -
  show "dtype c = pd"
    using assms by (auto dest: Array_AsType_spec(1) split: if_splits)
  show "\<exists>evs. extends_by h evs {} h' \<and> list_all is_astype evs"
  proof (cases "dtype r = pd")
    case True
    then have "h' = h" using assms by simp
    then show ?thesis using extends_by_refl by fastforce
  next
    case False
    then have "Array_AsType E r pd h = (Inr c, h')" using assms by simp
    from Array_AsType_spec(2) [OF this] show ?thesis
      by (intro exI [of _ "[AsTypeEv (raw_data r) (dtype r) (next_addr h) pd]"]) simp
  qed
  show "(dtype r = pd \<and> c = r \<and> h' = h)
         \<or> (dtype r \<noteq> pd \<and> raw_data c = next_addr h \<and> next_addr h' = Suc (next_addr h))"
    using assms by (auto dest: Array_AsType_spec(1) Array_AsType_spec(3) split: if_splits)
qed

lemma extends_astype_trans:
  assumes "\<exists>evs. extends_by h evs {} h1 \<and> list_all is_astype evs"
      and "\<exists>evs. extends_by h1 evs {} h2 \<and> list_all is_astype evs"
  shows "\<exists>evs. extends_by h evs {} h2 \<and> list_all is_astype evs"
proof -
  from assms obtain e1 e2 where "extends_by h e1 {} h1" "list_all is_astype e1"
    "extends_by h1 e2 {} h2" "list_all is_astype e2" by blast
  then have "extends_by h (e1 @ e2) {} h2 \<and> list_all is_astype (e1 @ e2)"
    using extends_by_trans [of h e1 "{}" h1 e2 "{}" h2] by simp
  then show ?thesis by blast
qed

lemma Empty_astype_ext:
  "Empty s dt dev h = (Inr a, h') \<Longrightarrow> \<exists>evs. extends_by h evs {} h' \<and> list_all is_astype evs"
  using Empty_spec(2) by fastforce

lemma filter_copy_astype: "list_all is_astype evs \<Longrightarrow> filter (is_copy_to a) evs = []"
proof (induction evs)
  case Nil then show ?case by simp
next
  case (Cons e evs) then show ?case by (cases e) auto
qed



lemma UpdateRunning_summary:
  assumes run: "UpdateRunning E r u h = (Inr (), h')"
    and u: "raw_data u < next_addr h" and r: "raw_data r < next_addr h"
  shows "\<exists>evs. trace h' = trace h @ evs
           \<and> filter is_native_call evs = []
           \<and> (\<forall>a. a \<noteq> raw_data r \<longrightarrow> filter (is_copy_to a) evs = [])
           \<and> next_addr h \<le> next_addr h'
           \<and> (\<forall>a. a \<noteq> raw_data r \<and> a < next_addr h \<longrightarrow> mem h' a = mem h a)
           \<and> (if dtype r = dtype u
              then filter (is_copy_to (raw_data r)) evs = []
                 \<and> mem h' (raw_data r) = mem h (raw_data r)
              else \<exists>t. next_addr h \<le> t \<and> t < next_addr h'
                 \<and> filter (is_copy_to (raw_data r)) evs
                      = [MemoryCopyEv (raw_data r) t (GetNBytes r)]
                 \<and> mem h' t = AsTypeBytes E (dtype u) (dtype r) (mem h (raw_data u))
                 \<and> mem h' (raw_data r)
                      = take (GetNBytes r) (mem h' t) @ drop (GetNBytes r) (mem h (raw_data r)))"
  using run
proof (cases rule: UpdateRunning_cases)
  case same
  then show ?thesis by (intro exI [of _ "[]"]) simp
next
  case cast
  have ne: "raw_data u \<noteq> next_addr h" "raw_data r \<noteq> next_addr h"
    "next_addr h \<noteq> raw_data u" "next_addr h \<noteq> raw_data r" using u r by simp_all
  show ?thesis
    by (rule exI [of _ "[AsTypeEv (raw_data u) (dtype u) (next_addr h) (dtype r),
                         MemoryCopyEv (raw_data r) (next_addr h) (GetNBytes r)]"])
       (simp add: cast ne)
qed

lemma filter_native_astype: "list_all is_astype evs \<Longrightarrow> filter is_native_call evs = []"
proof (induction evs)
  case Nil then show ?case by simp
next
  case (Cons e evs) then show ?case by (cases e) auto
qed

subsection \<open>Forward training: the write-back of the running statistics\<close>

lemma forward_steps:
  assumes "CudaBatchNormForwardOp E x gamma beta running_mean running_var eps decay axis out state h
             = (Inr st', h')"
  obtains x_c x_desc mode bn_desc pd gamma_c beta_c mean_c var_c xm xi h1 h2 h3 h4 h5 h6 h7 h8 h9
  where "ForwardDebugConditions x gamma beta running_mean running_var axis \<or> \<not> CHAINERX_DEBUG E"
    and "\<not> eps < CUDNN_BN_MIN_EPSILON E"
    and "is_contiguous running_mean" and "is_contiguous running_var"
    and "AsContiguous E x (dtype x) h = (Inr x_c, h1)"
    and "CudnnTensorDescriptor E (dtype x_c) (shape x_c) = Some x_desc"
    and "GetBatchNormMode axis = Inr mode"
    and "cudnnDeriveBNTensorDescriptor E x_desc mode = Some bn_desc"
    and "GetDtype bn_desc = Inr pd"
    and "AsContiguous E gamma pd h1 = (Inr gamma_c, h2)"
    and "AsContiguous E beta pd h2 = (Inr beta_c, h3)"
    and "(if dtype running_mean \<noteq> pd then Array_AsType E running_mean pd else ret running_mean) h3
           = (Inr mean_c, h4)"
    and "(if dtype running_var \<noteq> pd then Array_AsType E running_var pd else ret running_var) h4
           = (Inr var_c, h5)"
    and "EmptyLike gamma_c (device x) h5 = (Inr xm, h6)"
    and "EmptyLike gamma_c (device x) h6 = (Inr xi, h7)"
    and "ForwardTrainingCall E mode x_desc x_c out bn_desc gamma_c beta_c (1 - decay)
           mean_c var_c eps xm xi h7 = (Inr (), h8)"
    and "UpdateRunning E running_mean mean_c h8 = (Inr (), h9)"
    and "UpdateRunning E running_var var_c h9 = (Inr (), h')"
    and "st' = (case state of None \<Rightarrow> None
                | Some _ \<Rightarrow> Some (Some \<lparr>x_cont = x_c, x_mean = xm, x_inv_std = xi\<rparr>))"
  using assms unfolding CudaBatchNormForwardOp_def
  apply (elim bindE if_throwE)
  apply simp
  done

lemma forward_prefix:
  assumes "AsContiguous E x (dtype x) h = (Inr x_c, h1)"
    and "AsContiguous E gamma pd h1 = (Inr gamma_c, h2)"
    and "AsContiguous E beta pd h2 = (Inr beta_c, h3)"
  shows "\<exists>evs. extends_by h evs {} h3 \<and> list_all is_astype evs"
  using assms AsContiguous_spec(5) extends_astype_trans by meson

lemma buffer_layout:
  fixes M V Y pm pv qm qi n0 n3 n4 n5 n6 :: nat
  assumes mc: "(c1 \<and> pm = M) \<or> (\<not> c1 \<and> pm = n3 \<and> n4 = Suc n3)"
    and vc: "(c2 \<and> pv = V) \<or> (\<not> c2 \<and> pv = n4 \<and> n5 = Suc n4)"
    and lt: "M < n0" "V < n0" "Y < n0"
    and ne: "M \<noteq> V" "Y \<noteq> M" "Y \<noteq> V"
    and n: "n0 \<le> n3" "n3 \<le> n4" "n4 \<le> n5" "n6 = Suc n5" "qm = n5" "qi = n6"
  shows "pm \<noteq> pv" "pm < qm" "pv < qm" "qm < qi" "Y \<noteq> pm" "Y \<noteq> pv" "Y < qm"
    "M < qm" "V < qm" "\<not> c1 \<Longrightarrow> M \<noteq> pm" "\<not> c2 \<Longrightarrow> V \<noteq> pv" "M \<noteq> pv" "V \<noteq> pm"
proof -
  have pm: "pm = M \<or> (n0 \<le> pm \<and> pm < n4)" using mc n(1) by auto
  have pv: "pv = V \<or> (n4 \<le> pv \<and> pv < n5)" using vc by auto
  have n04: "n0 \<le> n4" "n0 \<le> n5" using n(1-3) by simp_all
  show "qm < qi" using n(4-6) by simp
  show "Y < qm" "M < qm" "V < qm" using lt n04 n(5) by simp_all
  show "pm < qm" using pm lt(1) n04 n(3,5) by auto
  show "pv < qm" using pv lt(2) n04 n(5) by auto
  show "\<not> c1 \<Longrightarrow> M \<noteq> pm" using mc lt(1) n(1) by auto
  show "\<not> c2 \<Longrightarrow> V \<noteq> pv" using vc lt(2) n04(1) by auto
  show "Y \<noteq> pm"
  proof (rule disjE [OF pm])
    assume "pm = M" then show ?thesis using ne(2) by simp
  next
    assume "n0 \<le> pm \<and> pm < n4" then show ?thesis using lt(3) by simp
  qed
  show "Y \<noteq> pv"
  proof (rule disjE [OF pv])
    assume "pv = V" then show ?thesis using ne(3) by simp
  next
    assume "n4 \<le> pv \<and> pv < n5" then show ?thesis using lt(3) n04(1) by simp
  qed
  show "M \<noteq> pv"
  proof (rule disjE [OF pv])
    assume "pv = V" then show ?thesis using ne(1) by simp
  next
    assume "n4 \<le> pv \<and> pv < n5" then show ?thesis using lt(1) n04(1) by simp
  qed
  show "V \<noteq> pm"
  proof (rule disjE [OF pm])
    assume "pm = M" then show ?thesis using ne(1) by simp
  next
    assume "n0 \<le> pm \<and> pm < n4" then show ?thesis using lt(2) by simp
  qed
  show "pm \<noteq> pv"
  proof (rule disjE [OF pm])
    assume a: "pm = M"
    show ?thesis
    proof (rule disjE [OF pv])
      assume "pv = V" then show ?thesis using a ne(1) by simp
    next
      assume "n4 \<le> pv \<and> pv < n5" then show ?thesis using a lt(1) n04(1) by simp
    qed
  next
    assume a: "n0 \<le> pm \<and> pm < n4"
    show ?thesis
    proof (rule disjE [OF pv])
      assume "pv = V" then show ?thesis using a lt(2) by simp
    next
      assume "n4 \<le> pv \<and> pv < n5" then show ?thesis using a by simp
    qed
  qed
qed

text \<open>
  Claim C1. Take a forward-training call that returns, on a heap where the buffers of
  \<open>out\<close>, the running mean and the running variance exist and are three different
  buffers. The call makes exactly one native call. For each running statistic: when
  its dtype is the parameter dtype, the native call is given the statistic's own
  buffer, no byte copy into that buffer is performed, and the buffer holds what the
  native call wrote; when its dtype differs, the native call is given another buffer,
  exactly one byte copy into the statistic's buffer is performed, its source holds the
  native call's result converted back to the statistic's dtype, and the statistic's
  buffer holds the first \<open>GetNBytes\<close> bytes of that source.
\<close>

theorem forward_running_write_back:
  assumes run: "CudaBatchNormForwardOp E x gamma beta running_mean running_var eps decay axis out
                  state h = (Inr st', h')"
    and alloc: "raw_data running_mean < next_addr h" "raw_data running_var < next_addr h"
               "raw_data out < next_addr h"
    and sep: "raw_data running_mean \<noteq> raw_data running_var"
             "raw_data out \<noteq> raw_data running_mean" "raw_data out \<noteq> raw_data running_var"
  shows "\<exists>pd evs args y new_mean new_var save_mean save_inv_std.
           param_dtype E x axis = Some pd
         \<and> trace h' = trace h @ evs
         \<and> filter is_native_call evs
              = [ForwardTrainingEv args (Some (y, new_mean, new_var, save_mean, save_inv_std))]
         \<and> (if dtype running_mean = pd
            then ft_running_mean args = raw_data running_mean
               \<and> filter (is_copy_to (raw_data running_mean)) evs = []
               \<and> mem h' (raw_data running_mean) = new_mean
            else ft_running_mean args \<noteq> raw_data running_mean
               \<and> (\<exists>t. filter (is_copy_to (raw_data running_mean)) evs
                          = [MemoryCopyEv (raw_data running_mean) t (GetNBytes running_mean)]
                      \<and> mem h' t = AsTypeBytes E pd (dtype running_mean) new_mean
                      \<and> mem h' (raw_data running_mean)
                          = take (GetNBytes running_mean) (mem h' t)
                            @ drop (GetNBytes running_mean) (mem h (raw_data running_mean))))
         \<and> (if dtype running_var = pd
            then ft_running_var args = raw_data running_var
               \<and> filter (is_copy_to (raw_data running_var)) evs = []
               \<and> mem h' (raw_data running_var) = new_var
            else ft_running_var args \<noteq> raw_data running_var
               \<and> (\<exists>t. filter (is_copy_to (raw_data running_var)) evs
                          = [MemoryCopyEv (raw_data running_var) t (GetNBytes running_var)]
                      \<and> mem h' t = AsTypeBytes E pd (dtype running_var) new_var
                      \<and> mem h' (raw_data running_var)
                          = take (GetNBytes running_var) (mem h' t)
                            @ drop (GetNBytes running_var) (mem h (raw_data running_var))))"
proof -
  from run obtain x_c x_desc mode bn_desc pd gamma_c beta_c mean_c var_c xm xi
      h1 h2 h3 h4 h5 h6 h7 h8 h9
    where s_x: "AsContiguous E x (dtype x) h = (Inr x_c, h1)"
      and s_xd: "CudnnTensorDescriptor E (dtype x_c) (shape x_c) = Some x_desc"
      and s_mode: "GetBatchNormMode axis = Inr mode"
      and s_bn: "cudnnDeriveBNTensorDescriptor E x_desc mode = Some bn_desc"
      and s_pd: "GetDtype bn_desc = Inr pd"
      and s_g: "AsContiguous E gamma pd h1 = (Inr gamma_c, h2)"
      and s_b: "AsContiguous E beta pd h2 = (Inr beta_c, h3)"
      and s_m: "(if dtype running_mean \<noteq> pd then Array_AsType E running_mean pd
                 else ret running_mean) h3 = (Inr mean_c, h4)"
      and s_v: "(if dtype running_var \<noteq> pd then Array_AsType E running_var pd
                 else ret running_var) h4 = (Inr var_c, h5)"
      and s_xm: "EmptyLike gamma_c (device x) h5 = (Inr xm, h6)"
      and s_xi: "EmptyLike gamma_c (device x) h6 = (Inr xi, h7)"
      and s_call: "ForwardTrainingCall E mode x_desc x_c out bn_desc gamma_c beta_c (1 - decay)
                     mean_c var_c eps xm xi h7 = (Inr (), h8)"
      and s_um: "UpdateRunning E running_mean mean_c h8 = (Inr (), h9)"
      and s_uv: "UpdateRunning E running_var var_c h9 = (Inr (), h')"
    by (rule forward_steps)
  define M where "M = raw_data running_mean"
  define V where "V = raw_data running_var"
  define Y where "Y = raw_data out"
  define pm where "pm = raw_data mean_c"
  define pv where "pv = raw_data var_c"
  define qm where "qm = raw_data xm"
  define qi where "qi = raw_data xi"
  note names = M_def [symmetric] V_def [symmetric] Y_def [symmetric] pm_def [symmetric]
    pv_def [symmetric] qm_def [symmetric] qi_def [symmetric]
  have pd: "param_dtype E x axis = Some pd"
    using AsContiguous_spec(2,3) [OF s_x] s_xd s_mode s_bn s_pd by (simp add: param_dtype_def)
  \<comment> \<open>the steps before the native call only allocate and convert into fresh buffers\<close>
  obtain e3 where e3: "extends_by h e3 {} h3" "list_all is_astype e3"
    using forward_prefix [OF s_x s_g s_b] by blast
  obtain e4 where e4: "extends_by h3 e4 {} h4" "list_all is_astype e4"
    using cast_step_spec(2) [OF s_m] by blast
  obtain e5 where e5: "extends_by h4 e5 {} h5" "list_all is_astype e5"
    using cast_step_spec(2) [OF s_v] by blast
  have x6: "extends_by h5 [] {} h6" "next_addr h6 = Suc (next_addr h5)" "qm = next_addr h5"
    using Empty_spec [OF s_xm [unfolded EmptyLike_def]] by (simp_all add: qm_def)
  have x7: "extends_by h6 [] {} h7" "next_addr h7 = Suc (next_addr h6)" "qi = next_addr h6"
    using Empty_spec [OF s_xi [unfolded EmptyLike_def]] by (simp_all add: qi_def)
  have n3: "next_addr h \<le> next_addr h3" using e3(1) by (simp add: extends_by_def)
  have n4: "next_addr h3 \<le> next_addr h4" using e4(1) by (simp add: extends_by_def)
  have n5: "next_addr h4 \<le> next_addr h5" using e5(1) by (simp add: extends_by_def)
  have e7: "extends_by h (e3 @ e4 @ e5) {} h7"
    using extends_by_trans [OF e3(1) extends_by_trans [OF e4(1) extends_by_trans [OF e5(1)
            extends_by_trans [OF x6(1) x7(1)]]]] by simp
  have a7: "list_all is_astype (e3 @ e4 @ e5)" using e3(2) e4(2) e5(2) by simp
  have t7: "trace h7 = trace h @ (e3 @ e4 @ e5)" using e7 by (simp add: extends_by_def)
  have mc: "(dtype running_mean = pd \<and> pm = M)
            \<or> (dtype running_mean \<noteq> pd \<and> pm = next_addr h3 \<and> next_addr h4 = Suc (next_addr h3))"
    using cast_step_spec(3) [OF s_m] by (auto simp: pm_def M_def)
  have vc: "(dtype running_var = pd \<and> pv = V)
            \<or> (dtype running_var \<noteq> pd \<and> pv = next_addr h4 \<and> next_addr h5 = Suc (next_addr h4))"
    using cast_step_spec(3) [OF s_v] by (auto simp: pv_def V_def)
  have dm: "dtype mean_c = pd" using cast_step_spec(1) [OF s_m] .
  have dv: "dtype var_c = pd" using cast_step_spec(1) [OF s_v] .
  have lt: "M < next_addr h" "V < next_addr h" "Y < next_addr h"
    using alloc by (simp_all add: M_def V_def Y_def)
  have ne: "M \<noteq> V" "Y \<noteq> M" "Y \<noteq> V"
    using sep by (simp_all add: M_def V_def Y_def)
  \<comment> \<open>the five buffers the native call writes are pairwise distinct\<close>
  note lay = buffer_layout [OF mc vc lt ne n3 n4 n5 x6(2) x6(3) x7(3)]
  have q: "pm \<noteq> qm" "pm \<noteq> qi" "pv \<noteq> qm" "pv \<noteq> qi" "qm \<noteq> qi"
    using lay(2,3,4) by simp_all
  have qM: "M \<noteq> qm" "M \<noteq> qi" "V \<noteq> qm" "V \<noteq> qi"
    using lay(4,8,9) by simp_all
  have n7: "next_addr h7 = Suc qi" using x7 by simp
  \<comment> \<open>the native call\<close>
  obtain y nm nv sm si where
        t8: "trace h8 = trace h7 @
               [ForwardTrainingEv
                  \<lparr>ft_mode = mode, ft_x = raw_data x_c, ft_y = Y,
                   ft_scale = raw_data gamma_c, ft_bias = raw_data beta_c, ft_factor = 1 - decay,
                   ft_running_mean = pm, ft_running_var = pv,
                   ft_eps = eps, ft_save_mean = qm, ft_save_inv_std = qi\<rparr>
                  (Some (y, nm, nv, sm, si))]"
    and n8: "next_addr h8 = next_addr h7"
    and m8: "mem h8 = (mem h7)(Y := y, pm := nm, pv := nv, qm := sm, qi := si)"
    using ForwardTrainingCall_spec [OF s_call] unfolding names by blast
  have v8: "mem h8 pm = nm" "mem h8 pv = nv"
    by (simp_all add: m8 lay(1) q)
  have m7: "mem h7 M = mem h M" "mem h7 V = mem h V"
    using extends_by_memD [OF e7] lt by simp_all
  have f8m: "dtype running_mean \<noteq> pd \<Longrightarrow> mem h8 M = mem h M"
    using lay(10) by (simp add: m8 m7 qM lay(12) ne(2) [symmetric])
  have f8v: "dtype running_var \<noteq> pd \<Longrightarrow> mem h8 V = mem h V"
    using lay(11) by (simp add: m8 m7 qM lay(13) ne(3) [symmetric])
  \<comment> \<open>the two write-backs\<close>
  have b8: "pm < next_addr h8" "M < next_addr h8" "pv < next_addr h8" "V < next_addr h8"
    using lay(2,3,4,8,9) by (simp_all add: n7 n8)
  obtain em where
        t9: "trace h9 = trace h8 @ em" and em1: "filter is_native_call em = []"
    and em2: "\<forall>a. a \<noteq> M \<longrightarrow> filter (is_copy_to a) em = []"
    and n9: "next_addr h8 \<le> next_addr h9"
    and f9: "\<forall>a. a \<noteq> M \<and> a < next_addr h8 \<longrightarrow> mem h9 a = mem h8 a"
    and w9: "if dtype running_mean = pd
             then filter (is_copy_to M) em = [] \<and> mem h9 M = mem h8 M
             else \<exists>t. next_addr h8 \<le> t \<and> t < next_addr h9
                \<and> filter (is_copy_to M) em = [MemoryCopyEv M t (GetNBytes running_mean)]
                \<and> mem h9 t = AsTypeBytes E pd (dtype running_mean) (mem h8 pm)
                \<and> mem h9 M = take (GetNBytes running_mean) (mem h9 t)
                              @ drop (GetNBytes running_mean) (mem h8 M)"
    using UpdateRunning_summary [OF s_um] b8(1,2) unfolding names dm by blast
  have b9: "pv < next_addr h9" "V < next_addr h9" using b8 n9 by simp_all
  obtain ev where
        t10: "trace h' = trace h9 @ ev" and ev1: "filter is_native_call ev = []"
    and ev2: "\<forall>a. a \<noteq> V \<longrightarrow> filter (is_copy_to a) ev = []"
    and f10: "\<forall>a. a \<noteq> V \<and> a < next_addr h9 \<longrightarrow> mem h' a = mem h9 a"
    and w10: "if dtype running_var = pd
             then filter (is_copy_to V) ev = [] \<and> mem h' V = mem h9 V
             else \<exists>t. next_addr h9 \<le> t \<and> t < next_addr h'
                \<and> filter (is_copy_to V) ev = [MemoryCopyEv V t (GetNBytes running_var)]
                \<and> mem h' t = AsTypeBytes E pd (dtype running_var) (mem h9 pv)
                \<and> mem h' V = take (GetNBytes running_var) (mem h' t)
                              @ drop (GetNBytes running_var) (mem h9 V)"
    using UpdateRunning_summary [OF s_uv] b9 unfolding names dv by blast
  define call where "call = ForwardTrainingEv
      \<lparr>ft_mode = mode, ft_x = raw_data x_c, ft_y = Y, ft_scale = raw_data gamma_c,
       ft_bias = raw_data beta_c, ft_factor = 1 - decay, ft_running_mean = pm,
       ft_running_var = pv, ft_eps = eps, ft_save_mean = qm, ft_save_inv_std = qi\<rparr>
      (Some (y, nm, nv, sm, si))"
  define evs where "evs = (e3 @ e4 @ e5) @ [call] @ em @ ev"
  have tr: "trace h' = trace h @ evs"
    by (simp add: t10 t9 t8 t7 evs_def call_def)
  have nat: "filter is_native_call evs = [call]"
    using filter_native_astype [OF a7] em1 ev1 by (simp add: evs_def call_def)
  have cpM: "filter (is_copy_to M) evs = filter (is_copy_to M) em"
    using filter_copy_astype [OF a7, of M] ev2 ne(1) by (simp add: evs_def call_def)
  have cpV: "filter (is_copy_to V) evs = filter (is_copy_to V) ev"
    using filter_copy_astype [OF a7, of V] em2 ne(1) by (simp add: evs_def call_def)
  have keepM: "mem h' M = mem h9 M" using f10 ne(1) b8(2) n9 by simp
  have keepV: "mem h9 V = mem h8 V" using f9 ne(1) b8(4) by simp
  have keep_pv: "mem h9 pv = nv" using f9 lay(12) b8(3) v8(2) by simp
  have mean_part:
    "if dtype running_mean = pd
     then pm = M \<and> filter (is_copy_to M) evs = [] \<and> mem h' M = nm
     else pm \<noteq> M
        \<and> (\<exists>t. filter (is_copy_to M) evs = [MemoryCopyEv M t (GetNBytes running_mean)]
               \<and> mem h' t = AsTypeBytes E pd (dtype running_mean) nm
               \<and> mem h' M = take (GetNBytes running_mean) (mem h' t)
                             @ drop (GetNBytes running_mean) (mem h M))"
  proof (cases "dtype running_mean = pd")
    case True
    then have "pm = M" using mc by simp
    then show ?thesis using True w9 cpM keepM v8(1) by simp
  next
    case False
    with w9 obtain t where t: "next_addr h8 \<le> t" "t < next_addr h9"
        "filter (is_copy_to M) em = [MemoryCopyEv M t (GetNBytes running_mean)]"
        "mem h9 t = AsTypeBytes E pd (dtype running_mean) (mem h8 pm)"
        "mem h9 M = take (GetNBytes running_mean) (mem h9 t)
                    @ drop (GetNBytes running_mean) (mem h8 M)"
      by auto
    have "t \<noteq> V" using t(1) b8(4) by simp
    then have kt: "mem h' t = mem h9 t" using f10 t(2) by simp
    have "filter (is_copy_to M) evs = [MemoryCopyEv M t (GetNBytes running_mean)]
          \<and> mem h' t = AsTypeBytes E pd (dtype running_mean) nm
          \<and> mem h' M = take (GetNBytes running_mean) (mem h' t)
                        @ drop (GetNBytes running_mean) (mem h M)"
      by (simp add: cpM t(3) kt t(4) v8(1) keepM t(5) f8m [OF False])
    then show ?thesis using False lay(10) [OF False] by auto
  qed
  have var_part:
    "if dtype running_var = pd
     then pv = V \<and> filter (is_copy_to V) evs = [] \<and> mem h' V = nv
     else pv \<noteq> V
        \<and> (\<exists>t. filter (is_copy_to V) evs = [MemoryCopyEv V t (GetNBytes running_var)]
               \<and> mem h' t = AsTypeBytes E pd (dtype running_var) nv
               \<and> mem h' V = take (GetNBytes running_var) (mem h' t)
                             @ drop (GetNBytes running_var) (mem h V))"
  proof (cases "dtype running_var = pd")
    case True
    then have "pv = V" using vc by simp
    then show ?thesis using True w10 cpV keepV v8(2) by simp
  next
    case False
    with w10 obtain t where t:
        "filter (is_copy_to V) ev = [MemoryCopyEv V t (GetNBytes running_var)]"
        "mem h' t = AsTypeBytes E pd (dtype running_var) (mem h9 pv)"
        "mem h' V = take (GetNBytes running_var) (mem h' t)
                    @ drop (GetNBytes running_var) (mem h9 V)"
      by auto
    have "filter (is_copy_to V) evs = [MemoryCopyEv V t (GetNBytes running_var)]
          \<and> mem h' t = AsTypeBytes E pd (dtype running_var) nv
          \<and> mem h' V = take (GetNBytes running_var) (mem h' t)
                        @ drop (GetNBytes running_var) (mem h V)"
      by (simp add: cpV t(1) t(2) keep_pv t(3) keepV f8v [OF False])
    then show ?thesis using False lay(11) [OF False] by auto
  qed
  show ?thesis
    apply (rule exI [of _ pd])
    apply (rule exI [of _ evs])
    apply (rule exI [of _ "\<lparr>ft_mode = mode, ft_x = raw_data x_c, ft_y = Y,
       ft_scale = raw_data gamma_c, ft_bias = raw_data beta_c, ft_factor = 1 - decay,
       ft_running_mean = pm, ft_running_var = pv, ft_eps = eps, ft_save_mean = qm,
       ft_save_inv_std = qi\<rparr>"])
    apply (rule exI [of _ y])
    apply (rule exI [of _ nm])
    apply (rule exI [of _ nv])
    apply (rule exI [of _ sm])
    apply (rule exI [of _ si])
    using pd tr nat mean_part var_part
    apply (simp only: call_def M_def V_def forward_training_args.simps)
    done
qed

lemma sample_forward_fst:
  "fst sample_forward = Inr (Some (Some
      \<lparr>x_cont = sample_array 0 kFloat16,
       x_mean = \<lparr>raw_data = 7, dtype = kFloat32, shape = [1, 1, 1, 1], is_contiguous = True,
                 device = 0\<rparr>,
       x_inv_std = \<lparr>raw_data = 8, dtype = kFloat32, shape = [1, 1, 1, 1], is_contiguous = True,
                    device = 0\<rparr>\<rparr>))"
  by (simp add: sample_forward_def CudaBatchNormForwardOp_def eval_defs)

lemma sample_forward_run:
  "CudaBatchNormForwardOp (sample_env True) (sample_array 0 kFloat16) (sample_array 1 kFloat32)
       (sample_array 2 kFloat32) (sample_array 3 kFloat16) (sample_array 4 kFloat32)
       (1 / 100000) (9 / 10) [0, 2, 3] (sample_array 5 kFloat16) (Some None) sample_heap
    = (Inr (Some (Some
      \<lparr>x_cont = sample_array 0 kFloat16,
       x_mean = \<lparr>raw_data = 7, dtype = kFloat32, shape = [1, 1, 1, 1], is_contiguous = True,
                 device = 0\<rparr>,
       x_inv_std = \<lparr>raw_data = 8, dtype = kFloat32, shape = [1, 1, 1, 1], is_contiguous = True,
                    device = 0\<rparr>\<rparr>)), snd sample_forward)"
  using sample_forward_fst unfolding sample_forward_def by (simp add: prod_eq_iff)

theorem forward_running_write_back_witness:
  "raw_data (sample_array 3 kFloat16) < next_addr sample_heap
   \<and> raw_data (sample_array 4 kFloat32) < next_addr sample_heap
   \<and> raw_data (sample_array 5 kFloat16) < next_addr sample_heap
   \<and> raw_data (sample_array 3 kFloat16) \<noteq> raw_data (sample_array 4 kFloat32)
   \<and> raw_data (sample_array 5 kFloat16) \<noteq> raw_data (sample_array 3 kFloat16)
   \<and> raw_data (sample_array 5 kFloat16) \<noteq> raw_data (sample_array 4 kFloat32)
   \<and> (\<exists>st. fst sample_forward = Inr st)
   \<and> (\<exists>pd evs args y new_mean new_var save_mean save_inv_std.
           param_dtype (sample_env True) (sample_array 0 kFloat16) [0, 2, 3] = Some pd
         \<and> trace (snd sample_forward) = trace sample_heap @ evs
         \<and> filter is_native_call evs
              = [ForwardTrainingEv args (Some (y, new_mean, new_var, save_mean, save_inv_std))]
         \<and> (if dtype (sample_array 3 kFloat16) = pd
            then ft_running_mean args = raw_data (sample_array 3 kFloat16)
               \<and> filter (is_copy_to (raw_data (sample_array 3 kFloat16))) evs = []
               \<and> mem (snd sample_forward) (raw_data (sample_array 3 kFloat16)) = new_mean
            else ft_running_mean args \<noteq> raw_data (sample_array 3 kFloat16)
               \<and> (\<exists>t. filter (is_copy_to (raw_data (sample_array 3 kFloat16))) evs
                          = [MemoryCopyEv (raw_data (sample_array 3 kFloat16)) t
                               (GetNBytes (sample_array 3 kFloat16))]
                      \<and> mem (snd sample_forward) t
                          = AsTypeBytes (sample_env True) pd (dtype (sample_array 3 kFloat16)) new_mean
                      \<and> mem (snd sample_forward) (raw_data (sample_array 3 kFloat16))
                          = take (GetNBytes (sample_array 3 kFloat16)) (mem (snd sample_forward) t)
                            @ drop (GetNBytes (sample_array 3 kFloat16))
                                (mem sample_heap (raw_data (sample_array 3 kFloat16)))))
         \<and> (if dtype (sample_array 4 kFloat32) = pd
            then ft_running_var args = raw_data (sample_array 4 kFloat32)
               \<and> filter (is_copy_to (raw_data (sample_array 4 kFloat32))) evs = []
               \<and> mem (snd sample_forward) (raw_data (sample_array 4 kFloat32)) = new_var
            else ft_running_var args \<noteq> raw_data (sample_array 4 kFloat32)
               \<and> (\<exists>t. filter (is_copy_to (raw_data (sample_array 4 kFloat32))) evs
                          = [MemoryCopyEv (raw_data (sample_array 4 kFloat32)) t
                               (GetNBytes (sample_array 4 kFloat32))]
                      \<and> mem (snd sample_forward) t
                          = AsTypeBytes (sample_env True) pd (dtype (sample_array 4 kFloat32)) new_var
                      \<and> mem (snd sample_forward) (raw_data (sample_array 4 kFloat32))
                          = take (GetNBytes (sample_array 4 kFloat32)) (mem (snd sample_forward) t)
                            @ drop (GetNBytes (sample_array 4 kFloat32))
                                (mem sample_heap (raw_data (sample_array 4 kFloat32))))))"
proof -
  have a: "raw_data (sample_array 3 kFloat16) < next_addr sample_heap"
    "raw_data (sample_array 4 kFloat32) < next_addr sample_heap"
    "raw_data (sample_array 5 kFloat16) < next_addr sample_heap"
    by (simp_all add: sample_array_def sample_heap_def)
  have s: "raw_data (sample_array 3 kFloat16) \<noteq> raw_data (sample_array 4 kFloat32)"
    "raw_data (sample_array 5 kFloat16) \<noteq> raw_data (sample_array 3 kFloat16)"
    "raw_data (sample_array 5 kFloat16) \<noteq> raw_data (sample_array 4 kFloat32)"
    by (simp_all add: sample_array_def)
  have r: "\<exists>st. fst sample_forward = Inr st" using sample_forward_fst by blast
  show ?thesis
    using a s r forward_running_write_back [OF sample_forward_run a s] by blast
qed

subsection \<open>Forward training: the arguments of the native call\<close>



subsection \<open>Forward training: the retained state\<close>

lemma GetDtype_Inr: "GetDtype d = Inr dt \<Longrightarrow> GetKind dt = kFloatKind"
  by (auto simp: GetDtype_def split: cudnnDataType_t.splits)

text \<open>
  Claim C2. The claim as stated fails: the state keeps the input copy in the dtype of
  \<open>x\<close> and the two statistics in the derived parameter dtype, and these differ
  for a half-precision input with single-precision parameters. What holds for every
  forward-training call that returns and was asked to retain the state: the three
  fields are contiguous and on the device of \<open>x\<close>; the batch mean and the inverse
  standard deviation share the derived parameter dtype, which is a floating-point
  dtype; the input copy has the dtype of \<open>x\<close>, which a debug build has checked to
  be a floating-point dtype.
\<close>

theorem forward_state_fields:
  assumes run: "CudaBatchNormForwardOp E x gamma beta running_mean running_var eps decay axis out
                  state h = (Inr st', h')"
    and keep: "state \<noteq> None"
  shows "\<exists>s pd. st' = Some (Some s) \<and> param_dtype E x axis = Some pd
           \<and> is_contiguous (x_cont s) \<and> is_contiguous (x_mean s) \<and> is_contiguous (x_inv_std s)
           \<and> device (x_cont s) = device x \<and> device (x_mean s) = device x
           \<and> device (x_inv_std s) = device x
           \<and> dtype (x_cont s) = dtype x \<and> dtype (x_mean s) = pd \<and> dtype (x_inv_std s) = pd
           \<and> GetKind pd = kFloatKind
           \<and> (CHAINERX_DEBUG E \<longrightarrow> GetKind (dtype x) = kFloatKind)"
proof -
  from run obtain x_c x_desc mode bn_desc pd gamma_c xm xi h1 h2 h5 h6 h7
    where dbg: "ForwardDebugConditions x gamma beta running_mean running_var axis
                \<or> \<not> CHAINERX_DEBUG E"
      and s_x: "AsContiguous E x (dtype x) h = (Inr x_c, h1)"
      and s_xd: "CudnnTensorDescriptor E (dtype x_c) (shape x_c) = Some x_desc"
      and s_mode: "GetBatchNormMode axis = Inr mode"
      and s_bn: "cudnnDeriveBNTensorDescriptor E x_desc mode = Some bn_desc"
      and s_pd: "GetDtype bn_desc = Inr pd"
      and s_g: "AsContiguous E gamma pd h1 = (Inr gamma_c, h2)"
      and s_xm: "EmptyLike gamma_c (device x) h5 = (Inr xm, h6)"
      and s_xi: "EmptyLike gamma_c (device x) h6 = (Inr xi, h7)"
      and st: "st' = (case state of None \<Rightarrow> None
                | Some _ \<Rightarrow> Some (Some \<lparr>x_cont = x_c, x_mean = xm, x_inv_std = xi\<rparr>))"
    by (rule forward_steps)
  have pd: "param_dtype E x axis = Some pd"
    using AsContiguous_spec(2,3) [OF s_x] s_xd s_mode s_bn s_pd by (simp add: param_dtype_def)
  have xc: "is_contiguous x_c" "dtype x_c = dtype x" "device x_c = device x"
    using AsContiguous_spec(1,2,4) [OF s_x] by simp_all
  have g: "dtype gamma_c = pd" using AsContiguous_spec(2) [OF s_g] .
  have xm: "is_contiguous xm" "dtype xm = pd" "device xm = device x"
    using Empty_spec(1) [OF s_xm [unfolded EmptyLike_def]] g by simp_all
  have xi: "is_contiguous xi" "dtype xi = pd" "device xi = device x"
    using Empty_spec(1) [OF s_xi [unfolded EmptyLike_def]] g by simp_all
  have k: "GetKind pd = kFloatKind" using GetDtype_Inr [OF s_pd] .
  have kx: "CHAINERX_DEBUG E \<longrightarrow> GetKind (dtype x) = kFloatKind"
    using dbg by (auto simp: ForwardDebugConditions_def Let_def)
  obtain q where "state = Some q" using keep by (cases state) auto
  then have "st' = Some (Some \<lparr>x_cont = x_c, x_mean = xm, x_inv_std = xi\<rparr>)"
    using st by simp
  then show ?thesis using pd xc xm xi k kx by simp
qed

theorem forward_state_fields_witness:
  "Some None \<noteq> (None :: state_arg)
   \<and> (\<exists>s pd. fst sample_forward = Inr (Some (Some s))
           \<and> param_dtype (sample_env True) (sample_array 0 kFloat16) [0, 2, 3] = Some pd
           \<and> is_contiguous (x_cont s) \<and> is_contiguous (x_mean s) \<and> is_contiguous (x_inv_std s)
           \<and> device (x_cont s) = device (sample_array 0 kFloat16)
           \<and> device (x_mean s) = device (sample_array 0 kFloat16)
           \<and> device (x_inv_std s) = device (sample_array 0 kFloat16)
           \<and> dtype (x_cont s) = dtype (sample_array 0 kFloat16)
           \<and> dtype (x_mean s) = pd \<and> dtype (x_inv_std s) = pd
           \<and> GetKind pd = kFloatKind
           \<and> GetKind (dtype (sample_array 0 kFloat16)) = kFloatKind)"
proof -
  have k: "Some None \<noteq> (None :: state_arg)" by simp
  have d: "CHAINERX_DEBUG (sample_env True)" by (simp add: sample_env_def)
  show ?thesis
    using k d forward_state_fields [OF sample_forward_run k] sample_forward_fst by auto
qed

theorem forward_state_dtypes_differ:
  "fst (CudaBatchNormForwardOp (sample_env True) (sample_array 0 kFloat16)
          (sample_array 1 kFloat32) (sample_array 2 kFloat32) (sample_array 3 kFloat16)
          (sample_array 4 kFloat32) (1 / 100000) (9 / 10) [0, 2, 3] (sample_array 5 kFloat16)
          (Some None) sample_heap)
     = Inr (Some (Some
        \<lparr>x_cont = sample_array 0 kFloat16,
         x_mean = \<lparr>raw_data = 7, dtype = kFloat32, shape = [1, 1, 1, 1], is_contiguous = True,
                   device = 0\<rparr>,
         x_inv_std = \<lparr>raw_data = 8, dtype = kFloat32, shape = [1, 1, 1, 1],
                      is_contiguous = True, device = 0\<rparr>\<rparr>))
   \<and> dtype (sample_array 0 kFloat16) \<noteq> kFloat32"
  using sample_forward_fst by (simp add: sample_forward_def sample_array_def)

subsection \<open>The checks that open the operators\<close>


























lemma forward_below_min:
  assumes "eps < CUDNN_BN_MIN_EPSILON E"
  shows "CudaBatchNormForwardOp E x gamma beta running_mean running_var eps decay axis out state h
         = (Inl (if CHAINERX_DEBUG E
                    \<and> \<not> ForwardDebugConditions x gamma beta running_mean running_var axis
                 then AssertionFailure
                 else CudnnError (MinEpsilon (CUDNN_BN_MIN_EPSILON E) eps)), h)"
  unfolding CudaBatchNormForwardOp_def using assms by (simp add: head_defs)




text \<open>
  Claim C8. The claim as stated fails where an earlier check fails first: with
  \<open>eps\<close> below the minimum the call throws the \<open>CudnnError\<close> on the
  minimum epsilon, contiguous or not. What holds: a forward-training call whose
  running mean or running variance is not contiguous throws and leaves the heap and
  the log as they were, so the native call is never made; the exception is the
  \<open>DeviceError\<close> on the first non-contiguous statistic whenever the debug
  assertions hold or are compiled out and \<open>eps\<close> is not below the minimum.
\<close>

theorem running_statistics_contiguity:
  assumes nc: "\<not> is_contiguous running_mean \<or> \<not> is_contiguous running_var"
  shows "\<exists>e. CudaBatchNormForwardOp E x gamma beta running_mean running_var eps decay axis out
                state h = (Inl e, h)
           \<and> (e = AssertionFailure
               \<or> e = CudnnError (MinEpsilon (CUDNN_BN_MIN_EPSILON E) eps)
               \<or> e = DeviceError
                       ''Running mean must to be contiguous for cuDNN to update it in-place.''
               \<or> e = DeviceError
                       ''Running variance must to be contiguous for cuDNN to update it in-place.'')
           \<and> ((ForwardDebugConditions x gamma beta running_mean running_var axis
                  \<or> \<not> CHAINERX_DEBUG E) \<and> \<not> eps < CUDNN_BN_MIN_EPSILON E
                \<longrightarrow> e = DeviceError
                  (if \<not> is_contiguous running_mean
                   then ''Running mean must to be contiguous for cuDNN to update it in-place.''
                   else ''Running variance must to be contiguous for cuDNN to update it in-place.''))"
proof (cases "eps < CUDNN_BN_MIN_EPSILON E")
  case True
  show ?thesis
    unfolding forward_below_min [OF True] using True by simp
next
  case False
  have "CudaBatchNormForwardOp E x gamma beta running_mean running_var eps decay axis out state h
         = (Inl (if CHAINERX_DEBUG E
                    \<and> \<not> ForwardDebugConditions x gamma beta running_mean running_var axis
                 then AssertionFailure
                 else DeviceError
                  (if \<not> is_contiguous running_mean
                   then ''Running mean must to be contiguous for cuDNN to update it in-place.''
                   else ''Running variance must to be contiguous for cuDNN to update it in-place.'')), h)"
  proof (cases "is_contiguous running_mean")
    case True
    then have "\<not> is_contiguous running_var" using nc by simp
    with True False show ?thesis
      unfolding CudaBatchNormForwardOp_def by (simp add: head_defs)
  next
    case nm: False
    with False show ?thesis
      unfolding CudaBatchNormForwardOp_def by (simp add: head_defs)
  qed
  then show ?thesis by simp
qed

theorem running_statistics_contiguity_witness:
  "\<not> is_contiguous ((sample_array 3 kFloat16)\<lparr>is_contiguous := False\<rparr>)
   \<and> CudaBatchNormForwardOp (sample_env True) (sample_array 0 kFloat16) (sample_array 1 kFloat32)
        (sample_array 2 kFloat32) ((sample_array 3 kFloat16)\<lparr>is_contiguous := False\<rparr>)
        (sample_array 4 kFloat32) (1 / 100000) (9 / 10) [0, 2, 3] (sample_array 5 kFloat16)
        (Some None) sample_heap
      = (Inl (DeviceError
               ''Running mean must to be contiguous for cuDNN to update it in-place.''),
         sample_heap)"
proof -
  have nc: "\<not> is_contiguous ((sample_array 3 kFloat16)\<lparr>is_contiguous := False\<rparr>)
            \<or> \<not> is_contiguous (sample_array 4 kFloat32)"
    by simp
  have dc: "ForwardDebugConditions (sample_array 0 kFloat16) (sample_array 1 kFloat32)
     (sample_array 2 kFloat32) ((sample_array 3 kFloat16)\<lparr>is_contiguous := False\<rparr>)
     (sample_array 4 kFloat32) [0, 2, 3]"
    by (simp add: eval_defs)
  have ok: "\<not> (1 / 100000 :: rat) < CUDNN_BN_MIN_EPSILON (sample_env True)"
    by (simp add: sample_env_def)
  show ?thesis
    using running_statistics_contiguity [OF nc, of "sample_env True" "sample_array 0 kFloat16"
        "sample_array 1 kFloat32" "sample_array 2 kFloat32" "1 / 100000" "9 / 10" "[0, 2, 3]"
        "sample_array 5 kFloat16" "Some None" sample_heap] dc ok
    by auto
qed

theorem contiguity_after_epsilon_check:
  "\<not> is_contiguous ((sample_array 3 kFloat16)\<lparr>is_contiguous := False\<rparr>)
   \<and> CudaBatchNormForwardOp (sample_env False) (sample_array 0 kFloat16) (sample_array 1 kFloat32)
        (sample_array 2 kFloat32) ((sample_array 3 kFloat16)\<lparr>is_contiguous := False\<rparr>)
        (sample_array 4 kFloat32) (1 / 1000000) (9 / 10) [0, 2, 3] (sample_array 5 kFloat16)
        (Some None) sample_heap
      = (Inl (CudnnError (MinEpsilon (1 / 100000) (1 / 1000000))), sample_heap)"
  unfolding CudaBatchNormForwardOp_def by (simp add: sample_env_def head_defs)

subsection \<open>Backward\<close>




text \<open>
  Claim C10. The result of a backward call, value and heap, is the same for any
  two arrays passed as \<open>x\<close>: the operator reads the input from the state only.
\<close>

theorem backward_independent_of_x:
  "CudaBatchNormBackwardOp E x gamma gout eps axis gx ggamma gbeta state h
     = CudaBatchNormBackwardOp E x' gamma gout eps axis gx ggamma gbeta state h"
  unfolding CudaBatchNormBackwardOp_def ..

lemma device_AsType_spec:
  assumes "device_AsType E a b h = (Inr u, h')"
  shows "trace h' = trace h @ [AsTypeEv (raw_data a) (dtype a) (raw_data b) (dtype b)]"
    and "mem h' = (mem h)(raw_data b := AsTypeBytes E (dtype a) (dtype b) (mem h (raw_data a)))"
    and "next_addr h' = next_addr h"
  using assms by (auto simp: device_AsType_def)

lemma BackwardCall_spec:
  assumes "BackwardCall E mode xd x_c gout_c gx_c bd g gg gb eps xm xi h = (Inr (), h')"
  shows "\<exists>dx dscale dbias.
           trace h' = trace h @
             [BackwardEv
                \<lparr>bw_mode = mode, bw_x = raw_data x_c, bw_dy = raw_data gout_c,
                 bw_dx = raw_data gx_c, bw_scale = raw_data g, bw_dscale = raw_data gg,
                 bw_dbias = raw_data gb, bw_eps = eps, bw_save_mean = raw_data xm,
                 bw_save_inv_std = raw_data xi\<rparr> (Some (dx, dscale, dbias))]
         \<and> next_addr h' = next_addr h
         \<and> mem h' = (mem h)(raw_data gx_c := dx, raw_data gg := dscale, raw_data gb := dbias)"
  using assms
  by (auto simp: BackwardCall_def Let_def split: option.splits)

lemma backward_steps:
  assumes "CudaBatchNormBackwardOp E x gamma gout eps axis gx ggamma gbeta state h = (Inr u, h')"
  obtains s gout_c gx_c x_desc mode bn_desc pd gamma_c gg gb h1 h2 h3 h4 h5 h6 h7 h8
  where "state = Some (Some s)"
    and "BackwardDebugConditions s gamma gout axis \<or> \<not> CHAINERX_DEBUG E"
    and "\<not> eps < CUDNN_BN_MIN_EPSILON E"
    and "AsContiguous E gout (dtype gout) h = (Inr gout_c, h1)"
    and "EmptyLike (x_cont s) (device (x_cont s)) h1 = (Inr gx_c, h2)"
    and "CudnnTensorDescriptor E (dtype (x_cont s)) (shape (x_cont s)) = Some x_desc"
    and "GetBatchNormMode axis = Inr mode"
    and "cudnnDeriveBNTensorDescriptor E x_desc mode = Some bn_desc"
    and "GetDtype bn_desc = Inr pd"
    and "AsContiguous E gamma pd h2 = (Inr gamma_c, h3)"
    and "Empty (ReduceShape (shape (x_cont s)) axis) pd (device (x_cont s)) h3 = (Inr gg, h4)"
    and "Empty (ReduceShape (shape (x_cont s)) axis) pd (device (x_cont s)) h4 = (Inr gb, h5)"
    and "BackwardCall E mode x_desc (x_cont s) gout_c gx_c bn_desc gamma_c gg gb eps
           (x_mean s) (x_inv_std s) h5 = (Inr (), h6)"
    and "device_AsType E gx_c gx h6 = (Inr (), h7)"
    and "device_AsType E gg ggamma h7 = (Inr (), h8)"
    and "device_AsType E gb gbeta h8 = (Inr u, h')"
proof (cases "state_get state")
  case None
  with assms show ?thesis
    unfolding CudaBatchNormBackwardOp_def by (auto elim!: bindE if_throwE)
next
  case (Some s)
  then have st: "state = Some (Some s)"
    by (cases state) (simp_all add: state_get_def)
  show ?thesis
    using assms unfolding CudaBatchNormBackwardOp_def Some option.case
    apply (elim bindE if_throwE)
    apply (rule that [of s])
    apply (simp_all add: st)
    done
qed

text \<open>
  Claim C7. Take a backward call that returns, on a heap where the three gradient
  buffers of the caller exist and are different. The log of the call ends with the
  native call followed by three conversions, from the buffers the native call wrote
  into \<open>gx\<close>, \<open>ggamma\<close> and \<open>gbeta\<close> in their own dtypes; all that
  precedes are conversions into fresh buffers. Each caller buffer holds the converted
  gradient. No condition on the dtypes enters: the conversions are made whether or
  not the dtypes agree.
\<close>

theorem backward_cast_back:
  assumes run: "CudaBatchNormBackwardOp E x gamma gout eps axis gx ggamma gbeta state h
                  = (Inr u, h')"
    and alloc: "raw_data gx < next_addr h" "raw_data ggamma < next_addr h"
               "raw_data gbeta < next_addr h"
    and sep: "raw_data gx \<noteq> raw_data ggamma" "raw_data gx \<noteq> raw_data gbeta"
             "raw_data ggamma \<noteq> raw_data gbeta"
  shows "\<exists>s pd evs args dx dscale dbias.
           state = Some (Some s) \<and> param_dtype E (x_cont s) axis = Some pd
         \<and> trace h' = trace h @ evs @
             [BackwardEv args (Some (dx, dscale, dbias)),
              AsTypeEv (bw_dx args) (dtype (x_cont s)) (raw_data gx) (dtype gx),
              AsTypeEv (bw_dscale args) pd (raw_data ggamma) (dtype ggamma),
              AsTypeEv (bw_dbias args) pd (raw_data gbeta) (dtype gbeta)]
         \<and> list_all is_astype evs
         \<and> mem h' (raw_data gx) = AsTypeBytes E (dtype (x_cont s)) (dtype gx) dx
         \<and> mem h' (raw_data ggamma) = AsTypeBytes E pd (dtype ggamma) dscale
         \<and> mem h' (raw_data gbeta) = AsTypeBytes E pd (dtype gbeta) dbias"
proof -
  from run obtain s gout_c gx_c x_desc mode bn_desc pd gamma_c gg gb h1 h2 h3 h4 h5 h6 h7 h8
    where st: "state = Some (Some s)"
      and s_go: "AsContiguous E gout (dtype gout) h = (Inr gout_c, h1)"
      and s_gx: "EmptyLike (x_cont s) (device (x_cont s)) h1 = (Inr gx_c, h2)"
      and s_xd: "CudnnTensorDescriptor E (dtype (x_cont s)) (shape (x_cont s)) = Some x_desc"
      and s_mode: "GetBatchNormMode axis = Inr mode"
      and s_bn: "cudnnDeriveBNTensorDescriptor E x_desc mode = Some bn_desc"
      and s_pd: "GetDtype bn_desc = Inr pd"
      and s_g: "AsContiguous E gamma pd h2 = (Inr gamma_c, h3)"
      and s_gg: "Empty (ReduceShape (shape (x_cont s)) axis) pd (device (x_cont s)) h3
                   = (Inr gg, h4)"
      and s_gb: "Empty (ReduceShape (shape (x_cont s)) axis) pd (device (x_cont s)) h4
                   = (Inr gb, h5)"
      and s_call: "BackwardCall E mode x_desc (x_cont s) gout_c gx_c bn_desc gamma_c gg gb eps
                     (x_mean s) (x_inv_std s) h5 = (Inr (), h6)"
      and s_c1: "device_AsType E gx_c gx h6 = (Inr (), h7)"
      and s_c2: "device_AsType E gg ggamma h7 = (Inr (), h8)"
      and s_c3: "device_AsType E gb gbeta h8 = (Inr u, h')"
    by (rule backward_steps)
  define X where "X = raw_data gx"
  define G where "G = raw_data ggamma"
  define B where "B = raw_data gbeta"
  define g1 where "g1 = raw_data gx_c"
  define g2 where "g2 = raw_data gg"
  define g3 where "g3 = raw_data gb"
  note names = X_def [symmetric] G_def [symmetric] B_def [symmetric] g1_def [symmetric]
    g2_def [symmetric] g3_def [symmetric]
  have pd: "param_dtype E (x_cont s) axis = Some pd"
    using s_xd s_mode s_bn s_pd by (simp add: param_dtype_def)
  obtain e1 where e1: "extends_by h e1 {} h1" "list_all is_astype e1"
    using AsContiguous_spec(5) [OF s_go] by blast
  have a2: "gx_c = \<lparr>raw_data = next_addr h1, dtype = dtype (x_cont s), shape = shape (x_cont s),
                     is_contiguous = True, device = device (x_cont s)\<rparr>"
    "extends_by h1 [] {} h2" "next_addr h2 = Suc (next_addr h1)"
    using Empty_spec [OF s_gx [unfolded EmptyLike_def]] by simp_all
  obtain e3 where e3: "extends_by h2 e3 {} h3" "list_all is_astype e3"
    using AsContiguous_spec(5) [OF s_g] by blast
  have a4: "gg = \<lparr>raw_data = next_addr h3, dtype = pd,
                   shape = ReduceShape (shape (x_cont s)) axis,
                   is_contiguous = True, device = device (x_cont s)\<rparr>"
    "extends_by h3 [] {} h4" "next_addr h4 = Suc (next_addr h3)"
    using Empty_spec [OF s_gg] by simp_all
  have a5: "gb = \<lparr>raw_data = next_addr h4, dtype = pd,
                   shape = ReduceShape (shape (x_cont s)) axis,
                   is_contiguous = True, device = device (x_cont s)\<rparr>"
    "extends_by h4 [] {} h5" "next_addr h5 = Suc (next_addr h4)"
    using Empty_spec [OF s_gb] by simp_all
  have t5: "trace h5 = trace h @ (e1 @ e3)"
    using e1(1) a2(2) e3(1) a4(2) a5(2) by (simp add: extends_by_def)
  have a15: "list_all is_astype (e1 @ e3)" using e1(2) e3(2) by simp
  have n1: "next_addr h \<le> next_addr h1" using e1(1) by (simp add: extends_by_def)
  have n3: "next_addr h2 \<le> next_addr h3" using e3(1) by (simp add: extends_by_def)
  have gs: "g1 = next_addr h1" "g2 = next_addr h3" "g3 = Suc g2"
    using a2(1) a4(1,3) a5(1) by (simp_all add: g1_def g2_def g3_def)
  have lt12: "g1 < g2" using gs(1,2) a2(3) n3 by simp
  have ltX: "X < g1" "G < g1" "B < g1" using alloc n1 gs(1) by (simp_all add: X_def G_def B_def)
  have ne_g: "g1 \<noteq> g2" "g1 \<noteq> g3" "g2 \<noteq> g3" using lt12 gs(3) by simp_all
  have ne_X: "X \<noteq> g2" "X \<noteq> g3" using ltX(1) lt12 gs(3) by simp_all
  have ne_G: "G \<noteq> g3" using ltX(2) lt12 gs(3) by simp
  have sepn: "X \<noteq> G" "X \<noteq> B" "G \<noteq> B" using sep by (simp_all add: X_def G_def B_def)
  have dt: "dtype gx_c = dtype (x_cont s)" "dtype gg = pd" "dtype gb = pd"
    using a2(1) a4(1) a5(1) by simp_all
  obtain dx dscale dbias where
        t6: "trace h6 = trace h5 @
               [BackwardEv
                  \<lparr>bw_mode = mode, bw_x = raw_data (x_cont s), bw_dy = raw_data gout_c,
                   bw_dx = g1, bw_scale = raw_data gamma_c, bw_dscale = g2, bw_dbias = g3,
                   bw_eps = eps, bw_save_mean = raw_data (x_mean s),
                   bw_save_inv_std = raw_data (x_inv_std s)\<rparr> (Some (dx, dscale, dbias))]"
    and m6: "mem h6 = (mem h5)(g1 := dx, g2 := dscale, g3 := dbias)"
    using BackwardCall_spec [OF s_call] unfolding names by blast
  have v6: "mem h6 g1 = dx" "mem h6 g2 = dscale" "mem h6 g3 = dbias"
    by (simp_all add: m6 ne_g)
  have t7: "trace h7 = trace h6 @ [AsTypeEv g1 (dtype (x_cont s)) X (dtype gx)]"
    and m7: "mem h7 = (mem h6)(X := AsTypeBytes E (dtype (x_cont s)) (dtype gx) dx)"
    using device_AsType_spec(1,2) [OF s_c1] unfolding names dt v6 by simp_all
  have v7: "mem h7 g2 = dscale" "mem h7 g3 = dbias"
    using ne_X by (simp_all add: m7 v6)
  have t8: "trace h8 = trace h7 @ [AsTypeEv g2 pd G (dtype ggamma)]"
    and m8: "mem h8 = (mem h7)(G := AsTypeBytes E pd (dtype ggamma) dscale)"
    using device_AsType_spec(1,2) [OF s_c2] unfolding names dt v7 by simp_all
  have v8: "mem h8 g3 = dbias" using ne_G by (simp add: m8 v7)
  have t9: "trace h' = trace h8 @ [AsTypeEv g3 pd B (dtype gbeta)]"
    and m9: "mem h' = (mem h8)(B := AsTypeBytes E pd (dtype gbeta) dbias)"
    using device_AsType_spec(1,2) [OF s_c3] unfolding names dt v8 by simp_all
  have fin: "mem h' X = AsTypeBytes E (dtype (x_cont s)) (dtype gx) dx"
    "mem h' G = AsTypeBytes E pd (dtype ggamma) dscale"
    "mem h' B = AsTypeBytes E pd (dtype gbeta) dbias"
    using sepn by (simp_all add: m9 m8 m7)
  have tr: "trace h' = trace h @ (e1 @ e3) @
      [BackwardEv
         \<lparr>bw_mode = mode, bw_x = raw_data (x_cont s), bw_dy = raw_data gout_c,
          bw_dx = g1, bw_scale = raw_data gamma_c, bw_dscale = g2, bw_dbias = g3,
          bw_eps = eps, bw_save_mean = raw_data (x_mean s),
          bw_save_inv_std = raw_data (x_inv_std s)\<rparr> (Some (dx, dscale, dbias)),
       AsTypeEv g1 (dtype (x_cont s)) X (dtype gx),
       AsTypeEv g2 pd G (dtype ggamma),
       AsTypeEv g3 pd B (dtype gbeta)]"
    by (simp add: t9 t8 t7 t6 t5)
  show ?thesis
    apply (rule exI [of _ s])
    apply (rule exI [of _ pd])
    apply (rule exI [of _ "e1 @ e3"])
    apply (rule exI [of _ "\<lparr>bw_mode = mode, bw_x = raw_data (x_cont s), bw_dy = raw_data gout_c,
          bw_dx = g1, bw_scale = raw_data gamma_c, bw_dscale = g2, bw_dbias = g3,
          bw_eps = eps, bw_save_mean = raw_data (x_mean s),
          bw_save_inv_std = raw_data (x_inv_std s)\<rparr>"])
    apply (rule exI [of _ dx])
    apply (rule exI [of _ dscale])
    apply (rule exI [of _ dbias])
    using st pd tr a15 fin
    apply (simp only: X_def G_def B_def backward_args.simps)
    done
qed

text \<open>A concrete call is evaluated one step at a time, each step on the heap the
  step before it left.\<close>

lemma fst_bind: "m h = (Inr v, h1) \<Longrightarrow> fst (f v h1) = r \<Longrightarrow> fst (bind m f h) = r"
  by (simp add: bind_def)

lemma fst_if_not: "\<not> c \<Longrightarrow> fst (n h) = r \<Longrightarrow> fst ((if c then m else n) h) = r"
  by simp

lemma sample_backward_fst:
  "fst (CudaBatchNormBackwardOp (sample_env True) (sample_array 0 kFloat16)
          (sample_array 1 kFloat32) (sample_array 5 kFloat16) (1 / 100000) [0, 2, 3]
          (sample_array 9 kFloat16) (sample_array 10 kFloat32) (sample_array 11 kFloat32)
          (Some (Some sample_state)) sample_heap2) = Inr ()"
  unfolding CudaBatchNormBackwardOp_def state_get_def option.case
  apply (rule fst_bind, simp add: eval_defs)
  apply (rule fst_bind, simp add: sample_state_def eval_defs)
  apply (rule fst_if_not, simp add: sample_env_def)
  apply (rule fst_bind, simp add: sample_state_def sample_heap2_def eval_defs)+
  apply (simp add: eval_defs)
  done

theorem backward_cast_back_witness:
  "raw_data (sample_array 9 kFloat16) < next_addr sample_heap2
   \<and> raw_data (sample_array 10 kFloat32) < next_addr sample_heap2
   \<and> raw_data (sample_array 11 kFloat32) < next_addr sample_heap2
   \<and> raw_data (sample_array 9 kFloat16) \<noteq> raw_data (sample_array 10 kFloat32)
   \<and> raw_data (sample_array 9 kFloat16) \<noteq> raw_data (sample_array 11 kFloat32)
   \<and> raw_data (sample_array 10 kFloat32) \<noteq> raw_data (sample_array 11 kFloat32)
   \<and> fst (CudaBatchNormBackwardOp (sample_env True) (sample_array 0 kFloat16)
          (sample_array 1 kFloat32) (sample_array 5 kFloat16) (1 / 100000) [0, 2, 3]
          (sample_array 9 kFloat16) (sample_array 10 kFloat32) (sample_array 11 kFloat32)
          (Some (Some sample_state)) sample_heap2) = Inr ()
   \<and> (\<exists>pd evs args dx dscale dbias.
           param_dtype (sample_env True) (x_cont sample_state) [0, 2, 3] = Some pd
         \<and> trace (snd (CudaBatchNormBackwardOp (sample_env True) (sample_array 0 kFloat16)
              (sample_array 1 kFloat32) (sample_array 5 kFloat16) (1 / 100000) [0, 2, 3]
              (sample_array 9 kFloat16) (sample_array 10 kFloat32) (sample_array 11 kFloat32)
              (Some (Some sample_state)) sample_heap2))
             = trace sample_heap2 @ evs @
             [BackwardEv args (Some (dx, dscale, dbias)),
              AsTypeEv (bw_dx args) (dtype (x_cont sample_state))
                (raw_data (sample_array 9 kFloat16)) (dtype (sample_array 9 kFloat16)),
              AsTypeEv (bw_dscale args) pd
                (raw_data (sample_array 10 kFloat32)) (dtype (sample_array 10 kFloat32)),
              AsTypeEv (bw_dbias args) pd
                (raw_data (sample_array 11 kFloat32)) (dtype (sample_array 11 kFloat32))]
         \<and> mem (snd (CudaBatchNormBackwardOp (sample_env True) (sample_array 0 kFloat16)
              (sample_array 1 kFloat32) (sample_array 5 kFloat16) (1 / 100000) [0, 2, 3]
              (sample_array 9 kFloat16) (sample_array 10 kFloat32) (sample_array 11 kFloat32)
              (Some (Some sample_state)) sample_heap2)) (raw_data (sample_array 11 kFloat32))
             = AsTypeBytes (sample_env True) pd (dtype (sample_array 11 kFloat32)) dbias)"
proof -
  have a: "raw_data (sample_array 9 kFloat16) < next_addr sample_heap2"
    "raw_data (sample_array 10 kFloat32) < next_addr sample_heap2"
    "raw_data (sample_array 11 kFloat32) < next_addr sample_heap2"
    by (simp_all add: sample_array_def sample_heap2_def)
  have s: "raw_data (sample_array 9 kFloat16) \<noteq> raw_data (sample_array 10 kFloat32)"
    "raw_data (sample_array 9 kFloat16) \<noteq> raw_data (sample_array 11 kFloat32)"
    "raw_data (sample_array 10 kFloat32) \<noteq> raw_data (sample_array 11 kFloat32)"
    by (simp_all add: sample_array_def)
  have run: "CudaBatchNormBackwardOp (sample_env True) (sample_array 0 kFloat16)
          (sample_array 1 kFloat32) (sample_array 5 kFloat16) (1 / 100000) [0, 2, 3]
          (sample_array 9 kFloat16) (sample_array 10 kFloat32) (sample_array 11 kFloat32)
          (Some (Some sample_state)) sample_heap2
        = (Inr (), snd (CudaBatchNormBackwardOp (sample_env True) (sample_array 0 kFloat16)
          (sample_array 1 kFloat32) (sample_array 5 kFloat16) (1 / 100000) [0, 2, 3]
          (sample_array 9 kFloat16) (sample_array 10 kFloat32) (sample_array 11 kFloat32)
          (Some (Some sample_state)) sample_heap2))"
    using sample_backward_fst by (simp add: prod_eq_iff)
  from backward_cast_back [OF run a s] obtain s' pd evs args dx dscale dbias where
      r: "Some (Some sample_state) = Some (Some s')"
        "param_dtype (sample_env True) (x_cont s') [0, 2, 3] = Some pd"
        "trace (snd (CudaBatchNormBackwardOp (sample_env True) (sample_array 0 kFloat16)
              (sample_array 1 kFloat32) (sample_array 5 kFloat16) (1 / 100000) [0, 2, 3]
              (sample_array 9 kFloat16) (sample_array 10 kFloat32) (sample_array 11 kFloat32)
              (Some (Some sample_state)) sample_heap2))
             = trace sample_heap2 @ evs @
             [BackwardEv args (Some (dx, dscale, dbias)),
              AsTypeEv (bw_dx args) (dtype (x_cont s'))
                (raw_data (sample_array 9 kFloat16)) (dtype (sample_array 9 kFloat16)),
              AsTypeEv (bw_dscale args) pd
                (raw_data (sample_array 10 kFloat32)) (dtype (sample_array 10 kFloat32)),
              AsTypeEv (bw_dbias args) pd
                (raw_data (sample_array 11 kFloat32)) (dtype (sample_array 11 kFloat32))]"
        "mem (snd (CudaBatchNormBackwardOp (sample_env True) (sample_array 0 kFloat16)
              (sample_array 1 kFloat32) (sample_array 5 kFloat16) (1 / 100000) [0, 2, 3]
              (sample_array 9 kFloat16) (sample_array 10 kFloat32) (sample_array 11 kFloat32)
              (Some (Some sample_state)) sample_heap2)) (raw_data (sample_array 11 kFloat32))
             = AsTypeBytes (sample_env True) pd (dtype (sample_array 11 kFloat32)) dbias"
    by blast
  from r(1) have "s' = sample_state" by simp
  with r(2,3,4) a s sample_backward_fst show ?thesis by blast
qed

subsection \<open>Fixed forward\<close>

lemma frames_ret: "frames W (ret v)" by (simp add: frames_def ret_def)
lemma frames_throw: "frames W (throw e)" by (simp add: frames_def throw_def)

lemma frames_bind:
  assumes "frames W m" and "\<And>v. frames W (f v)"
  shows "frames W (bind m f)"
proof -
  have "next_addr h \<le> next_addr (snd (bind m f h))
        \<and> (\<forall>a. a < next_addr h \<and> a \<notin> W \<longrightarrow> mem (snd (bind m f h)) a = mem h a)" for h
  proof (cases "m h")
    case (Pair r h1)
    have m1: "next_addr h \<le> next_addr h1"
      "\<And>a. a < next_addr h \<Longrightarrow> a \<notin> W \<Longrightarrow> mem h1 a = mem h a"
      using assms(1) Pair by (auto simp: frames_def dest: spec [of _ h])
    show ?thesis
    proof (cases r)
      case (Inl e)
      then show ?thesis using Pair m1 by (simp add: bind_def)
    next
      case (Inr v)
      have f1: "next_addr h1 \<le> next_addr (snd (f v h1))"
        "\<And>a. a < next_addr h1 \<Longrightarrow> a \<notin> W \<Longrightarrow> mem (snd (f v h1)) a = mem h1 a"
        using assms(2) [of v] by (auto simp: frames_def dest: spec [of _ h1])
      have "bind m f h = f v h1" using Pair Inr by (simp add: bind_def)
      then show ?thesis using m1 f1 by auto
    qed
  qed
  then show ?thesis by (simp add: frames_def)
qed

lemma frames_if: "frames W m \<Longrightarrow> frames W n \<Longrightarrow> frames W (if c then m else n)"
  by simp

lemma frames_of_result: "frames W (of_result r)"
  by (cases r) (simp_all add: of_result_def frames_ret frames_throw)

lemma frames_ASSERT: "frames W (CHAINERX_ASSERT E b)"
  by (simp add: CHAINERX_ASSERT_def frames_ret frames_throw)

lemma frames_make_x_desc: "frames W (make_x_desc E a)"
  by (simp add: make_x_desc_def frames_ret frames_throw split: option.splits)

lemma frames_CudnnBN: "frames W (CudnnBNTensorDescriptor E d m)"
  by (simp add: CudnnBNTensorDescriptor_def frames_ret frames_throw split: option.splits)

lemma frames_Empty: "frames W (Empty s dt dev)"
  by (simp add: frames_def Empty_def)

lemma frames_Array_AsType: "frames W (Array_AsType E a dt)"
  by (simp add: frames_def Array_AsType_def Empty_def device_AsType_def bind_def ret_def)

lemma frames_AsContiguous: "frames W (AsContiguous E a dt)"
  by (simp add: AsContiguous_def frames_ret frames_Array_AsType)

lemma frames_ForwardInferenceCall:
  "frames {raw_data out} (ForwardInferenceCall E mode xd x_c out bd g b m v eps)"
  by (simp add: frames_def ForwardInferenceCall_def Let_def split: option.splits)

lemma frames_Fixed:
  "frames {raw_data out} (CudaFixedBatchNormForwardOp E x gamma beta mean_a var_a eps axis out)"
  unfolding CudaFixedBatchNormForwardOp_def
  by (intro frames_bind frames_if frames_ret frames_throw frames_of_result frames_ASSERT
        frames_make_x_desc frames_CudnnBN frames_AsContiguous frames_ForwardInferenceCall)

text \<open>
  Claim C9. Whatever the outcome of a fixed-forward call, every buffer that existed
  before the call and is not the buffer of \<open>out\<close> holds afterwards what it held
  before; in particular the buffers of \<open>mean\<close> and \<open>var\<close>, when they exist
  and are not the buffer of \<open>out\<close>. The operator takes no state and returns none:
  its arguments are the arrays, \<open>eps\<close> and the axes, and its value is \<open>unit\<close>.
\<close>

theorem fixed_forward_preserves_mean_var:
  assumes run: "CudaFixedBatchNormForwardOp E x gamma beta mean_a var_a eps axis out h = (r, h')"
    and alloc: "raw_data mean_a < next_addr h" "raw_data var_a < next_addr h"
    and sep: "raw_data mean_a \<noteq> raw_data out" "raw_data var_a \<noteq> raw_data out"
  shows "mem h' (raw_data mean_a) = mem h (raw_data mean_a)
       \<and> mem h' (raw_data var_a) = mem h (raw_data var_a)
       \<and> (\<forall>a. a < next_addr h \<and> a \<noteq> raw_data out \<longrightarrow> mem h' a = mem h a)"
proof -
  have "\<forall>a. a < next_addr h \<and> a \<notin> {raw_data out} \<longrightarrow> mem h' a = mem h a"
    using frames_Fixed [of out E x gamma beta mean_a var_a eps axis] run
    unfolding frames_def by (metis snd_conv)
  then show ?thesis using alloc sep by simp
qed

lemma sample_fixed_fst:
  "fst (CudaFixedBatchNormForwardOp (sample_env True) (sample_array 0 kFloat16)
          (sample_array 1 kFloat32) (sample_array 2 kFloat32) (sample_array 3 kFloat16)
          (sample_array 4 kFloat32) (1 / 100000) [0, 2, 3] (sample_array 5 kFloat16) sample_heap)
     = Inr ()"
  by (simp add: CudaFixedBatchNormForwardOp_def eval_defs)

theorem fixed_forward_preserves_mean_var_witness:
  "raw_data (sample_array 3 kFloat16) < next_addr sample_heap
   \<and> raw_data (sample_array 4 kFloat32) < next_addr sample_heap
   \<and> raw_data (sample_array 3 kFloat16) \<noteq> raw_data (sample_array 5 kFloat16)
   \<and> raw_data (sample_array 4 kFloat32) \<noteq> raw_data (sample_array 5 kFloat16)
   \<and> fst (CudaFixedBatchNormForwardOp (sample_env True) (sample_array 0 kFloat16)
          (sample_array 1 kFloat32) (sample_array 2 kFloat32) (sample_array 3 kFloat16)
          (sample_array 4 kFloat32) (1 / 100000) [0, 2, 3] (sample_array 5 kFloat16) sample_heap)
       = Inr ()
   \<and> mem (snd (CudaFixedBatchNormForwardOp (sample_env True) (sample_array 0 kFloat16)
          (sample_array 1 kFloat32) (sample_array 2 kFloat32) (sample_array 3 kFloat16)
          (sample_array 4 kFloat32) (1 / 100000) [0, 2, 3] (sample_array 5 kFloat16) sample_heap))
        (raw_data (sample_array 3 kFloat16)) = mem sample_heap (raw_data (sample_array 3 kFloat16))
   \<and> mem (snd (CudaFixedBatchNormForwardOp (sample_env True) (sample_array 0 kFloat16)
          (sample_array 1 kFloat32) (sample_array 2 kFloat32) (sample_array 3 kFloat16)
          (sample_array 4 kFloat32) (1 / 100000) [0, 2, 3] (sample_array 5 kFloat16) sample_heap))
        (raw_data (sample_array 4 kFloat32)) = mem sample_heap (raw_data (sample_array 4 kFloat32))"
proof -
  have a: "raw_data (sample_array 3 kFloat16) < next_addr sample_heap"
    "raw_data (sample_array 4 kFloat32) < next_addr sample_heap"
    by (simp_all add: sample_array_def sample_heap_def)
  have s: "raw_data (sample_array 3 kFloat16) \<noteq> raw_data (sample_array 5 kFloat16)"
    "raw_data (sample_array 4 kFloat32) \<noteq> raw_data (sample_array 5 kFloat16)"
    by (simp_all add: sample_array_def)
  have run: "CudaFixedBatchNormForwardOp (sample_env True) (sample_array 0 kFloat16)
          (sample_array 1 kFloat32) (sample_array 2 kFloat32) (sample_array 3 kFloat16)
          (sample_array 4 kFloat32) (1 / 100000) [0, 2, 3] (sample_array 5 kFloat16) sample_heap
        = (Inr (), snd (CudaFixedBatchNormForwardOp (sample_env True) (sample_array 0 kFloat16)
          (sample_array 1 kFloat32) (sample_array 2 kFloat32) (sample_array 3 kFloat16)
          (sample_array 4 kFloat32) (1 / 100000) [0, 2, 3] (sample_array 5 kFloat16)
          sample_heap))"
    using sample_fixed_fst by (simp add: prod_eq_iff)
  show ?thesis
    using a s sample_fixed_fst fixed_forward_preserves_mean_var [OF run a s] by blast
qed

subsection \<open>The check on \<open>eps\<close>\<close>























end
